theory Spec2Isabelle
  imports Complex_Main
begin

section \<open>Conventions of the embedding\<close>

text \<open>
  The audited program is TypeScript. Its values are embedded as follows.
  \<^item> A JavaScript \<open>number\<close> is a \<^typ>\<open>real\<close>. The one non-number a computation of the
    modelled code can produce, \<open>NaN\<close>, is \<open>None\<close> of an option type at the place where it
    arises (\<open>parseFloat\<close>, \<open>parseInt\<close>, \<open>0 / 0\<close>).
  \<^item> The rounding of IEEE 754 doubles is written out, with \<open>round_double\<close>, where the scale
    test of the spacing analyzer depends on it: in the result of \<open>parseFloat\<close> and in the
    subtractions of \<open>detectors/spacing.ts\<close> and \<open>detectors/typescale.ts\<close>
    (\<open>double_sub\<close>). The other arithmetic is exact arithmetic on the reals. The infinities
    are not represented: a numeric string that spells \<open>Infinity\<close> is read as no number, and
    a magnitude that a double would round to an infinity stays finite.
  \<^item> A string is a \<^typ>\<open>string\<close>, a list of 8-bit characters; white space is the ASCII
    white space. \<open>undefined\<close> where a string is expected is \<open>None\<close>.
  \<^item> A thrown exception is \<open>Inl\<close> of a sum type.
  \<^item> The module-level issue counter of \<open>utils/id.ts\<close> and the stream of results of
    \<open>Math.random()\<close> form an explicit state that the analyzers take and return.
  \<^item> An object literal used as a dictionary is the association list of its own
    properties; where the code indexes one with a string it was given, the properties
    inherited from \<open>Object.prototype\<close> are modelled as well.
  \<^item> A template literal that interpolates a number is kept as the list of its pieces, so
    that no decimal printing of a real number has to be invented.
\<close>

section \<open>JavaScript built-ins used by the analyzers\<close>

datatype error = TypeError

definition truthy :: "string option \<Rightarrow> bool" where
  "truthy v = (case v of None \<Rightarrow> False | Some s \<Rightarrow> s \<noteq> [])"

text \<open>\<open>v || d\<close> on an optional string: \<open>undefined\<close> and the empty string are falsy.\<close>

definition or_else :: "string option \<Rightarrow> string \<Rightarrow> string" where
  "or_else v d = (case v of None \<Rightarrow> d | Some s \<Rightarrow> if s = [] then d else s)"

text \<open>\<open>s.split(c)\<close> for a one-character separator: never returns the empty list.\<close>

fun split_on :: "char \<Rightarrow> string \<Rightarrow> string list" where
  "split_on c [] = [[]]"
| "split_on c (x # xs) =
     (if x = c then [] # split_on c xs
      else (case split_on c xs of
              [] \<Rightarrow> [[x]]
            | w # ws \<Rightarrow> (x # w) # ws))"

definition is_digit :: "char \<Rightarrow> bool" where
  "is_digit c = (c \<in> set ''0123456789'')"

definition is_space :: "char \<Rightarrow> bool" where
  "is_space c = (c \<in> {CHR '' '', CHR 0x09, CHR 0x0A, CHR 0x0B, CHR 0x0C, CHR 0x0D})"

definition digit_val :: "char \<Rightarrow> nat" where
  "digit_val c = of_char c - 48"

definition digits_val :: "string \<Rightarrow> nat" where
  "digits_val ds = foldl (\<lambda>a c. 10 * a + digit_val c) 0 ds"

definition is_hex_digit :: "char \<Rightarrow> bool" where
  "is_hex_digit c = (c \<in> set ''0123456789abcdefABCDEF'')"

definition hex_digit_val :: "char \<Rightarrow> nat" where
  "hex_digit_val c =
     (if is_digit c then of_char c - 48
      else if c \<in> set ''abcdef'' then of_char c - 87
      else of_char c - 55)"

definition hex_val :: "string \<Rightarrow> nat" where
  "hex_val ds = foldl (\<lambda>a c. 16 * a + hex_digit_val c) 0 ds"

definition starts_with :: "string \<Rightarrow> string \<Rightarrow> bool" where
  "starts_with s p = (take (length p) s = p)"

definition ends_with :: "string \<Rightarrow> string \<Rightarrow> bool" where
  "ends_with s p = (length p \<le> length s \<and> drop (length s - length p) s = p)"

text \<open>
  The sign prefix shared by \<open>parseFloat\<close> and \<open>parseInt\<close>: leading white space is dropped,
  then one optional \<open>+\<close> or \<open>-\<close>.
\<close>

definition strip_sign :: "string \<Rightarrow> bool \<times> string" where
  "strip_sign s =
     (case dropWhile is_space s of
        [] \<Rightarrow> (False, [])
      | c # cs \<Rightarrow> if c = CHR ''-'' then (True, cs)
                 else if c = CHR ''+'' then (False, cs)
                 else (False, c # cs))"

text \<open>
  The optional exponent part of a decimal literal: \<open>e\<close> or \<open>E\<close>, an optional sign and at
  least one digit; anything else contributes the factor 1.
\<close>

definition exponent_factor :: "string \<Rightarrow> real" where
  "exponent_factor s =
     (case s of
        [] \<Rightarrow> 1
      | c # cs \<Rightarrow>
          if c = CHR ''e'' \<or> c = CHR ''E'' then
            (let (neg, ds) = (case cs of
                                [] \<Rightarrow> (False, [])
                              | d # r \<Rightarrow> if d = CHR ''-'' then (True, r)
                                        else if d = CHR ''+'' then (False, r)
                                        else (False, d # r));
                 e = takeWhile is_digit ds
             in if e = [] then 1
                else if neg then 1 / 10 ^ digits_val e
                else 10 ^ digits_val e)
          else 1)"

text \<open>
  Rounding of a real number to the nearest IEEE 754 binary64 number, ties to the even
  significand. \<open>pow2 e\<close> is the power of two with exponent \<open>e\<close>. A number whose magnitude
  lies between \<open>pow2 e\<close> and \<open>pow2 (e + 1)\<close> is rounded to a multiple of \<open>pow2 (e - 52)\<close>, the
  distance between neighbouring doubles there; below the smallest normal number
  \<open>pow2 (- 1022)\<close> that distance stays \<open>pow2 (- 1074)\<close>. \<open>binade x\<close> is that exponent \<open>e\<close>, the
  least one from \<open>- 1022\<close> on with \<open>|x| < pow2 (e + 1)\<close>.
\<close>

definition pow2 :: "int \<Rightarrow> real" where
  "pow2 e = (if 0 \<le> e then 2 ^ nat e else 1 / 2 ^ nat (- e))"

definition binade :: "real \<Rightarrow> int" where
  "binade x =
     (case List.find (\<lambda>e. \<bar>x\<bar> < pow2 (e + 1)) [- 1022..1023] of
        Some e \<Rightarrow> e
      | None \<Rightarrow> 1023)"

definition nearest_even :: "real \<Rightarrow> int" where
  "nearest_even q =
     (let f = \<lfloor>q\<rfloor>; d = q - of_int f
      in if d < 1 / 2 then f
         else if d > 1 / 2 then f + 1
         else if even f then f else f + 1)"

definition round_double :: "real \<Rightarrow> real" where
  "round_double x =
     (if x = 0 then 0
      else (let ulp = pow2 (binade x - 52)
            in of_int (nearest_even (x / ulp)) * ulp))"

text \<open>\<open>a - b\<close> on two numbers: the exact difference, rounded.\<close>

definition double_sub :: "real \<Rightarrow> real \<Rightarrow> real" where
  "double_sub a b = round_double (a - b)"

text \<open>
  \<open>parseFloat\<close>: the longest prefix that is a decimal literal, read as the nearest double;
  \<open>None\<close> for \<open>NaN\<close>.
\<close>

definition parseFloat :: "string \<Rightarrow> real option" where
  "parseFloat s =
     (let (neg, body) = strip_sign s;
          ip = takeWhile is_digit body;
          r1 = dropWhile is_digit body;
          (fp, r2) = (case r1 of
                        [] \<Rightarrow> ([], [])
                      | c # cs \<Rightarrow> if c = CHR ''.''
                                 then (takeWhile is_digit cs, dropWhile is_digit cs)
                                 else ([], c # cs))
      in if ip = [] \<and> fp = [] then None
         else
           (let m = real (digits_val ip) + real (digits_val fp) / 10 ^ length fp;
                v = m * exponent_factor r2
            in Some (round_double (if neg then - v else v))))"

text \<open>
  \<open>parseInt\<close> without a radix: a \<open>0x\<close> prefix selects base 16, otherwise the longest
  prefix of decimal digits is read; \<open>None\<close> for \<open>NaN\<close>.
\<close>

definition parseInt :: "string \<Rightarrow> int option" where
  "parseInt s =
     (let (neg, body) = strip_sign s;
          hex = (starts_with body ''0x'' \<or> starts_with body ''0X'');
          ds = (if hex then takeWhile is_hex_digit (drop 2 body)
                else takeWhile is_digit body)
      in if ds = [] then None
         else
           (let v = int (if hex then hex_val ds else digits_val ds)
            in Some (if neg then - v else v)))"

text \<open>\<open>parseInt(s, 16)\<close> on a string of hexadecimal digits.\<close>

definition parseInt16 :: "string \<Rightarrow> nat" where
  "parseInt16 ds = hex_val ds"

text \<open>\<open>Math.round\<close>: to the nearest integer, halves upwards.\<close>

definition Math_round :: "real \<Rightarrow> int" where
  "Math_round x = \<lfloor>x + 1 / 2\<rfloor>"

text \<open>
  \<open>xs.reduce(f)\<close> without an initial value: throws a \<open>TypeError\<close> on the empty array.
\<close>

definition reduce :: "('a \<Rightarrow> 'a \<Rightarrow> 'a) \<Rightarrow> 'a list \<Rightarrow> error + 'a" where
  "reduce f xs = (case xs of [] \<Rightarrow> Inl TypeError | x # r \<Rightarrow> Inr (foldl f x r))"

text \<open>\<open>xs.find(p)\<close>: the first element that satisfies \<open>p\<close>.\<close>

fun find_first :: "('a \<Rightarrow> bool) \<Rightarrow> 'a list \<Rightarrow> 'a option" where
  "find_first p [] = None"
| "find_first p (x # xs) = (if p x then Some x else find_first p xs)"

text \<open>Decimal digits of a natural number, and \<open>padStart(4, '0')\<close>.\<close>

fun show_nat_fuel :: "nat \<Rightarrow> nat \<Rightarrow> string" where
  "show_nat_fuel 0 n = []"
| "show_nat_fuel (Suc k) n =
     (if n < 10 then [''0123456789'' ! n]
      else show_nat_fuel k (n div 10) @ [''0123456789'' ! (n mod 10)])"

definition show_nat :: "nat \<Rightarrow> string" where
  "show_nat n = show_nat_fuel (Suc n) n"

definition padStart4 :: "string \<Rightarrow> string" where
  "padStart4 s = replicate (4 - length s) CHR ''0'' @ s"

section \<open>Data model (types/config.ts, types/audit.ts)\<close>

record Viewport =
  name :: string
  width :: real
  height :: real

record Typescale =
  base :: real
  ratio :: real
  sizes :: "real list"

record ContrastRatios =
  AA :: real
  AAA :: real

datatype AuditFeature =
  overflow | spacing | typescale | colors | accessibility | design_system

datatype IssueSeverity = critical | high | medium | low

record KarenConfig =
  spacingScale :: "real list"
  typescale_cfg :: Typescale
  colorPalette :: "string list"
  breakpoints :: "Viewport list"
  alignTolerancePx :: real
  contrastRatios :: ContrastRatios
  features :: "AuditFeature list"

record ElementRect =
  rect_x :: real
  rect_y :: real
  rect_width :: real
  rect_height :: real

datatype DOMElement =
  DOMElement
    (selector: string)
    (tagName: string)
    (classes: "string list")
    (elem_id: string)
    (rect: ElementRect)
    (computedStyle: "string \<Rightarrow> string option")
    (children: "DOMElement list")

record LayoutMetrics =
  totalElements :: real
  visibleElements :: real
  overflowingElements :: real
  performanceScore :: real

record ViewportSnapshot =
  viewport :: Viewport
  screenshot :: string
  snapshot_dom :: "DOMElement list"
  metrics :: LayoutMetrics
  errors :: "string list"

text \<open>
  The pieces of a template literal, and the values stored under \<open>details\<close>
  (\<open>Record<string, unknown>\<close>); \<open>JText\<close> is a string that interpolates a number.
\<close>

datatype piece = Lit string | Num real | Fixed2 real

type_synonym template = "piece list"

datatype json =
    JNum real
  | JNaN
  | JStr string
  | JUndefined
  | JBool bool
  | JArr "json list"
  | JObj "(string \<times> json) list"
  | JText "piece list"

record IssueFix =
  fix_file :: string
  before :: template
  after :: template
  explanation :: "template option"

record Fix =
  suggestion :: template
  fix_code :: "IssueFix option"

record Issue =
  issue_id :: string
  issue_type :: AuditFeature
  severity :: IssueSeverity
  issue_viewport :: string
  element :: string
  message :: "template option"
  details :: "(string \<times> json) list"
  issue_screenshot :: "string option"
  issue_fix :: "Fix option"

section \<open>Identifiers and randomness (utils/id.ts, Math.random)\<close>

text \<open>
  The counter of \<open>utils/id.ts\<close> is a natural number; an analyzer that never calls
  \<open>Math.random()\<close> takes and returns the counter alone. An analyzer that does call it
  takes and returns a \<open>world\<close>: the counter and the results \<open>Math.random()\<close> is still
  to give.
\<close>

record world =
  counter :: nat
  entropy :: "nat \<Rightarrow> real"

definition generateId :: "string \<Rightarrow> nat \<Rightarrow> string \<times> nat" where
  "generateId prefix c = (prefix @ ''-'' @ padStart4 (show_nat (c + 1)), c + 1)"

definition resetCounter :: "world \<Rightarrow> world" where
  "resetCounter w = w\<lparr>counter := 0\<rparr>"

definition Math_random :: "world \<Rightarrow> real \<times> world" where
  "Math_random w = (entropy w 0, w\<lparr>entropy := (\<lambda>n. entropy w (Suc n))\<rparr>)"

text \<open>
  \<open>msgs[Math.floor(Math.random() * msgs.length)]\<close>; an index outside the array reads
  \<open>undefined\<close>.
\<close>

definition pick_message :: "template list \<Rightarrow> world \<Rightarrow> template option \<times> world" where
  "pick_message msgs w =
     (let (r, w') = Math_random w;
          i = \<lfloor>r * real (length msgs)\<rfloor>
      in (if 0 \<le> i \<and> i < int (length msgs) then Some (msgs ! nat i) else None, w'))"

text \<open>A loop whose body may throw: the first exception ends it.\<close>

fun for_each :: "('a \<Rightarrow> 's \<Rightarrow> error + 's) \<Rightarrow> 'a list \<Rightarrow> 's \<Rightarrow> error + 's" where
  "for_each body [] s = Inr s"
| "for_each body (a # as) s =
     (case body a s of Inl e \<Rightarrow> Inl e | Inr s' \<Rightarrow> for_each body as s')"

section \<open>Spacing analysis (detectors/spacing.ts)\<close>

definition parseSpacing :: "string \<Rightarrow> real list" where
  "parseSpacing spacingValue =
     map the (filter (\<lambda>v. v \<noteq> None) (map parseFloat (split_on CHR '' '' spacingValue)))"

definition isOnScale :: "real \<Rightarrow> real list \<Rightarrow> bool" where
  "isOnScale v scale = list_ex (\<lambda>scaleValue. \<bar>double_sub v scaleValue\<bar> < 1) scale"

definition findNearest :: "real \<Rightarrow> real list \<Rightarrow> error + real" where
  "findNearest v scale =
     reduce (\<lambda>prev curr. if \<bar>double_sub curr v\<bar> < \<bar>double_sub prev v\<bar> then curr else prev)
       scale"

text \<open>\<open>xs.join(sep)\<close> on numbers, inside a template literal.\<close>

fun join_numbers :: "string \<Rightarrow> real list \<Rightarrow> template" where
  "join_numbers sep [] = []"
| "join_numbers sep [a] = [Num a]"
| "join_numbers sep (a # b # r) = Num a # Lit sep # join_numbers sep (b # r)"

definition allSpacingValues :: "DOMElement \<Rightarrow> (string \<times> real) list" where
  "allSpacingValues el =
     (let margins = parseSpacing (or_else (computedStyle el ''margin'') ''0'');
          paddings = parseSpacing (or_else (computedStyle el ''padding'') ''0'')
      in map (\<lambda>v. (''margin'', v)) margins @ map (\<lambda>v. (''padding'', v)) paddings)"

definition spacingRoasts :: "ViewportSnapshot \<Rightarrow> string \<Rightarrow> real \<Rightarrow> real \<Rightarrow> template list" where
  "spacingRoasts snapshot ty v nearest =
     [ [Lit ''Random spacing? Really? '', Num v, Lit ''px '', Lit ty, Lit ''? '',
        Lit ''Karen's judging your design tokens on '', Lit (name (viewport snapshot)),
        Lit ''.''],
       [Lit ''Using '', Num v, Lit ''px for '', Lit ty,
        Lit ''? Karen insists on consistency. Try '', Num nearest,
        Lit ''px from your scale.''],
       [Num v, Lit ''px '', Lit ty,
        Lit ''? That's not on the spacing scale, sweetie. Karen disapproves.''],
       [Lit ''Arbitrary '', Lit ty, Lit '' values? Karen's design system is crying on '',
        Lit (name (viewport snapshot)), Lit ''.''] ]"

definition spacingIssue ::
  "ViewportSnapshot \<Rightarrow> DOMElement \<Rightarrow> real list \<Rightarrow> string \<Rightarrow> real \<Rightarrow> real \<Rightarrow>
   string \<Rightarrow> template option \<Rightarrow> Issue" where
  "spacingIssue snapshot el scale ty v nearest ident msg =
     \<lparr> issue_id = ident,
       issue_type = spacing,
       severity = medium,
       issue_viewport = name (viewport snapshot),
       element = selector el,
       message = msg,
       details =
         [(''property'', JStr ty),
          (''value'', JNum v),
          (''nearestScaleValue'', JNum nearest),
          (''spacingScale'', JArr (map JNum scale)),
          (''difference'', JNum \<bar>double_sub v nearest\<bar>)],
       issue_screenshot = None,
       issue_fix = Some
         \<lparr> suggestion = [Lit ''Use '', Num nearest, Lit ''px from your spacing scale''],
           fix_code = Some
             \<lparr> fix_file = ''styles/spacing.css'',
               before = [Lit (selector el), Lit '' {'', Lit [CHR 0x0A], Lit ''  '', Lit ty,
                         Lit '': '', Num v, Lit ''px;'', Lit [CHR 0x0A], Lit ''}''],
               after = [Lit (selector el), Lit '' {'', Lit [CHR 0x0A], Lit ''  '', Lit ty,
                        Lit '': '', Num nearest, Lit ''px;'', Lit [CHR 0x0A], Lit ''}''],
               explanation = Some
                 ([Lit ''Aligns to the defined spacing scale of ''] @
                  join_numbers '', '' scale @ [Lit ''px'']) \<rparr> \<rparr> \<rparr>"

text \<open>The body of the innermost loop of \<open>analyzeSpacing\<close>, for one spacing value.\<close>

definition spacingValueStep ::
  "ViewportSnapshot \<Rightarrow> DOMElement \<Rightarrow> real list \<Rightarrow> string \<times> real \<Rightarrow>
   Issue list \<times> world \<Rightarrow> error + Issue list \<times> world" where
  "spacingValueStep snapshot el scale tv s =
     (let (ty, v) = tv; (issues, w) = s
      in if \<not> isOnScale v scale \<and> v > 0 then
           (case findNearest v scale of
              Inl e \<Rightarrow> Inl e
            | Inr nearest \<Rightarrow>
                (let (ident, c) = generateId ''SPC'' (counter w);
                     (msg, w2) = pick_message (spacingRoasts snapshot ty v nearest)
                                   (w\<lparr>counter := c\<rparr>)
                 in Inr (issues @ [spacingIssue snapshot el scale ty v nearest ident msg],
                         w2)))
         else Inr (issues, w))"

definition spacingElementStep ::
  "ViewportSnapshot \<Rightarrow> real list \<Rightarrow> DOMElement \<Rightarrow>
   Issue list \<times> world \<Rightarrow> error + Issue list \<times> world" where
  "spacingElementStep snapshot scale el s =
     for_each (spacingValueStep snapshot el scale) (allSpacingValues el) s"

definition spacingSnapshotStep ::
  "real list \<Rightarrow> ViewportSnapshot \<Rightarrow> Issue list \<times> world \<Rightarrow> error + Issue list \<times> world" where
  "spacingSnapshotStep scale snapshot s =
     for_each (spacingElementStep snapshot scale) (snapshot_dom snapshot) s"

definition analyzeSpacing ::
  "ViewportSnapshot list \<Rightarrow> KarenConfig \<Rightarrow> world \<Rightarrow> error + Issue list \<times> world" where
  "analyzeSpacing snapshots config w =
     for_each (spacingSnapshotStep (spacingScale config)) snapshots ([], w)"

section \<open>Accessibility and contrast (detectors/accessibility.ts)\<close>

text \<open>
  The channels of an \<open>RGB\<close> value are results of \<open>parseInt\<close> on a string of decimal or
  hexadecimal digits, so they are natural numbers.
\<close>

record RGB =
  rgb_r :: nat
  rgb_g :: nat
  rgb_b :: nat

text \<open>\<open>re.exec(s)\<close> for a pattern without \<open>^\<close>: the first position where it matches.\<close>

fun search :: "(string \<Rightarrow> 'a option) \<Rightarrow> string \<Rightarrow> 'a option" where
  "search m [] = m []"
| "search m (c # cs) = (case m (c # cs) of Some res \<Rightarrow> Some res | None \<Rightarrow> search m cs)"

text \<open>\<open>(\d+)\<close> followed by the character \<open>c\<close>: the digits and the rest after \<open>c\<close>.\<close>

definition digits_then :: "char \<Rightarrow> string \<Rightarrow> (string \<times> string) option" where
  "digits_then c s =
     (let ds = takeWhile is_digit s
      in if ds = [] then None
         else (case dropWhile is_digit s of
                 [] \<Rightarrow> None
               | d # rest \<Rightarrow> if d = c then Some (ds, rest) else None))"

text \<open>The pattern \<open>rgb\((\d+),\s*(\d+),\s*(\d+)\)\<close> at the start of a string.\<close>

definition match_rgb_at :: "string \<Rightarrow> (string \<times> string \<times> string) option" where
  "match_rgb_at s =
     (if starts_with s ''rgb('' then
        (case digits_then CHR '','' (drop 4 s) of
           None \<Rightarrow> None
         | Some (d1, s1) \<Rightarrow>
             (case digits_then CHR '','' (dropWhile is_space s1) of
                None \<Rightarrow> None
              | Some (d2, s2) \<Rightarrow>
                  (case digits_then CHR '')'' (dropWhile is_space s2) of
                     None \<Rightarrow> None
                   | Some (d3, s3) \<Rightarrow> Some (d1, d2, d3))))
      else None)"

text \<open>The pattern \<open>^#?([a-f\d]{2})([a-f\d]{2})([a-f\d]{2})$\<close> with the flag \<open>i\<close>.\<close>

definition match_hex :: "string \<Rightarrow> (string \<times> string \<times> string) option" where
  "match_hex s =
     (let h = (case s of [] \<Rightarrow> [] | c # cs \<Rightarrow> if c = CHR ''#'' then cs else c # cs)
      in if length h = 6 \<and> list_all is_hex_digit h
         then Some (take 2 h, take 2 (drop 2 h), drop 4 h)
         else None)"

definition parseColor :: "string \<Rightarrow> RGB option" where
  "parseColor colorStr =
     (case search match_rgb_at colorStr of
        Some (d1, d2, d3) \<Rightarrow>
          Some \<lparr> rgb_r = digits_val d1, rgb_g = digits_val d2, rgb_b = digits_val d3 \<rparr>
      | None \<Rightarrow>
          (case match_hex colorStr of
             Some (h1, h2, h3) \<Rightarrow>
               Some \<lparr> rgb_r = parseInt16 h1, rgb_g = parseInt16 h2, rgb_b = parseInt16 h3 \<rparr>
           | None \<Rightarrow> None))"

definition linearChannel :: "nat \<Rightarrow> real" where
  "linearChannel val =
     (let v = real val / 255
      in if v \<le> 3928 / 100000 then v / (1292 / 100)
         else ((v + 55 / 1000) / (1055 / 1000)) powr (24 / 10))"

definition getLuminance :: "RGB \<Rightarrow> real" where
  "getLuminance rgb =
     2126 / 10000 * linearChannel (rgb_r rgb) + 7152 / 10000 * linearChannel (rgb_g rgb)
       + 722 / 10000 * linearChannel (rgb_b rgb)"

definition calculateContrast :: "RGB \<Rightarrow> RGB \<Rightarrow> real" where
  "calculateContrast fg bg =
     (let l1 = getLuminance fg;
          l2 = getLuminance bg;
          lighter = max l1 l2;
          darker = min l1 l2
      in (lighter + 5 / 100) / (darker + 5 / 100))"

definition generateAccessibleColor :: "RGB \<Rightarrow> real \<Rightarrow> string" where
  "generateAccessibleColor bg requiredRatio =
     (if getLuminance bg > 1 / 2 then ''#000000'' else ''#FFFFFF'')"

text \<open>\<open>x.toFixed(2)\<close> read back as a number.\<close>

definition toFixed2 :: "real \<Rightarrow> real" where
  "toFixed2 v = real_of_int \<lfloor>v * 100 + 1 / 2\<rfloor> / 100"

text \<open>An optional string inside a template literal, and as a value of \<open>details\<close>.\<close>

definition shown :: "string option \<Rightarrow> string" where
  "shown v = (case v of None \<Rightarrow> ''undefined'' | Some s \<Rightarrow> s)"

definition json_of :: "string option \<Rightarrow> json" where
  "json_of v = (case v of None \<Rightarrow> JUndefined | Some s \<Rightarrow> JStr s)"

definition wcagLevel :: "real \<Rightarrow> string" where
  "wcagLevel requiredRatio = (if requiredRatio \<ge> 7 then ''AAA'' else ''AA'')"

definition contrastRoasts :: "ViewportSnapshot \<Rightarrow> real \<Rightarrow> real \<Rightarrow> template list" where
  "contrastRoasts snapshot contrastRatio requiredRatio =
     [ [Lit ''Contrast ratio? Never heard of her. Gray text on gray background? '',
        Lit ''Karen's calling WCAG on you at '', Lit (name (viewport snapshot)), Lit ''.''],
       [Fixed2 contrastRatio, Lit '':1 contrast ratio? WCAG requires '', Num requiredRatio,
        Lit '':1. Karen's disappointed on '', Lit (name (viewport snapshot)), Lit ''.''],
       [Lit ''Low contrast text detected on '', Lit (name (viewport snapshot)),
        Lit ''. Karen insists on accessibility, sweetie.''],
       [Lit ''Text you can barely see? Karen's not here for it. Fix your contrast on '',
        Lit (name (viewport snapshot)), Lit ''.''] ]"

definition contrastIssue ::
  "ViewportSnapshot \<Rightarrow> DOMElement \<Rightarrow> RGB \<Rightarrow> real \<Rightarrow> real \<Rightarrow> string \<Rightarrow>
   template option \<Rightarrow> Issue" where
  "contrastIssue snapshot el bgColor contrastRatio requiredRatio ident msg =
     \<lparr> issue_id = ident,
       issue_type = accessibility,
       severity = high,
       issue_viewport = name (viewport snapshot),
       element = selector el,
       message = msg,
       details =
         [(''foreground'', json_of (computedStyle el ''color'')),
          (''background'', json_of (computedStyle el ''backgroundColor'')),
          (''contrastRatio'', JNum (toFixed2 contrastRatio)),
          (''required'', JNum requiredRatio),
          (''passes'', JBool False),
          (''wcagLevel'', JStr (wcagLevel requiredRatio))],
       issue_screenshot = Some (screenshot snapshot),
       issue_fix = Some
         \<lparr> suggestion = [Lit ''Increase contrast to meet WCAG '',
                         Lit (wcagLevel requiredRatio), Lit '' standards''],
           fix_code = Some
             \<lparr> fix_file = ''styles/colors.css'',
               before = [Lit (selector el), Lit '' {'', Lit [CHR 0x0A], Lit ''  color: '',
                         Lit (shown (computedStyle el ''color'')), Lit '';'', Lit [CHR 0x0A],
                         Lit ''}''],
               after = [Lit (selector el), Lit '' {'', Lit [CHR 0x0A], Lit ''  color: '',
                        Lit (generateAccessibleColor bgColor requiredRatio), Lit '';'',
                        Lit [CHR 0x0A], Lit ''}''],
               explanation = Some
                 [Lit ''Ensures '', Num requiredRatio,
                  Lit '':1 contrast ratio for WCAG compliance''] \<rparr> \<rparr> \<rparr>"

text \<open>
  \<open>fontSize < 18\<close> on the result of \<open>parseFloat\<close>: a comparison with \<open>NaN\<close> is false.
\<close>

definition requiredRatioFor :: "KarenConfig \<Rightarrow> DOMElement \<Rightarrow> real" where
  "requiredRatioFor config el =
     (case parseFloat (or_else (computedStyle el ''fontSize'') ''16'') of
        Some fontSize \<Rightarrow>
          if fontSize < 18 then AAA (contrastRatios config) else AA (contrastRatios config)
      | None \<Rightarrow> AA (contrastRatios config))"

text \<open>
  The part of the loop body of \<open>checkAccessibility\<close> after both colors have been parsed.
\<close>

definition contrastCheck ::
  "ViewportSnapshot \<Rightarrow> KarenConfig \<Rightarrow> DOMElement \<Rightarrow> RGB \<Rightarrow> RGB \<Rightarrow>
   Issue list \<times> world \<Rightarrow> Issue list \<times> world" where
  "contrastCheck snapshot config el fgColor bgColor s =
     (let (issues, w) = s;
          contrastRatio = calculateContrast fgColor bgColor;
          requiredRatio = requiredRatioFor config el
      in if contrastRatio < requiredRatio then
           (let (ident, c) = generateId ''A11Y'' (counter w);
                (msg, w2) = pick_message (contrastRoasts snapshot contrastRatio requiredRatio)
                              (w\<lparr>counter := c\<rparr>)
            in (issues @ [contrastIssue snapshot el bgColor contrastRatio requiredRatio ident msg],
                w2))
         else (issues, w))"

text \<open>The loop body: an element with a color that does not parse is passed over.\<close>

definition accessibilityElementStep ::
  "ViewportSnapshot \<Rightarrow> KarenConfig \<Rightarrow> DOMElement \<Rightarrow> Issue list \<times> world \<Rightarrow> Issue list \<times> world" where
  "accessibilityElementStep snapshot config el s =
     (let fgColor = parseColor (or_else (computedStyle el ''color'') ''#000000'');
          bgColor = parseColor (or_else (computedStyle el ''backgroundColor'') ''#ffffff'')
      in case fgColor of
           None \<Rightarrow> s
         | Some fg \<Rightarrow>
             (case bgColor of
                None \<Rightarrow> s
              | Some bg \<Rightarrow> contrastCheck snapshot config el fg bg s))"

definition isTextElement :: "DOMElement \<Rightarrow> bool" where
  "isTextElement el =
     (case computedStyle el ''fontSize'' of
        None \<Rightarrow> False
      | Some fs \<Rightarrow> fs \<noteq> [] \<and> (case parseFloat fs of None \<Rightarrow> False | Some v \<Rightarrow> v > 0))"

definition accessibilitySnapshotStep ::
  "KarenConfig \<Rightarrow> ViewportSnapshot \<Rightarrow> Issue list \<times> world \<Rightarrow> Issue list \<times> world" where
  "accessibilitySnapshotStep config snapshot s =
     (let textElements = filter isTextElement (snapshot_dom snapshot)
      in foldl (\<lambda>t el. accessibilityElementStep snapshot config el t) s textElements)"

definition checkAccessibility ::
  "ViewportSnapshot list \<Rightarrow> KarenConfig \<Rightarrow> world \<Rightarrow> Issue list \<times> world" where
  "checkAccessibility snapshots config w =
     foldl (\<lambda>t snapshot. accessibilitySnapshotStep config snapshot t) ([], w) snapshots"

section \<open>Alignment (detectors/alignment.ts)\<close>

text \<open>
  \<open>xs.sort(cmp)\<close> is stable. It is modelled by insertion from the left: an element goes
  before the first element that \<open>cmp\<close> puts after it. For a comparator that orders the
  array consistently this is the result of every stable sort.
\<close>

fun insert_sorted :: "('a \<Rightarrow> 'a \<Rightarrow> real) \<Rightarrow> 'a \<Rightarrow> 'a list \<Rightarrow> 'a list" where
  "insert_sorted cmp a [] = [a]"
| "insert_sorted cmp a (b # bs) =
     (if cmp a b < 0 then a # b # bs else b # insert_sorted cmp a bs)"

definition js_sort :: "('a \<Rightarrow> 'a \<Rightarrow> real) \<Rightarrow> 'a list \<Rightarrow> 'a list" where
  "js_sort cmp xs = foldl (\<lambda>acc a. insert_sorted cmp a acc) [] xs"

text \<open>\<open>xs.join(sep)\<close> on strings.\<close>

fun join :: "string \<Rightarrow> string list \<Rightarrow> string" where
  "join sep [] = []"
| "join sep [a] = a"
| "join sep (a # b # r) = a @ sep @ join sep (b # r)"

text \<open>
  The state of the loop of \<open>groupElementsByRow\<close> and \<open>groupElementsByColumn\<close>. The anchor
  starts as \<open>-Infinity\<close>, from which every coordinate is infinitely far: \<open>None\<close>.
\<close>

record grouping =
  rows :: "DOMElement list list"
  currentRow :: "DOMElement list"
  currentY :: "real option"

definition groupStep :: "(DOMElement \<Rightarrow> real) \<Rightarrow> real \<Rightarrow> grouping \<Rightarrow> DOMElement \<Rightarrow> grouping" where
  "groupStep key tolerance st el =
     (if rect_width (rect el) = 0 \<or> rect_height (rect el) = 0 then st
      else if (case currentY st of None \<Rightarrow> False | Some cy \<Rightarrow> \<bar>key el - cy\<bar> \<le> tolerance)
      then st\<lparr>currentRow := currentRow st @ [el]\<rparr>
      else \<lparr> rows = (if length (currentRow st) > 1 then rows st @ [currentRow st]
                     else rows st),
             currentRow = [el],
             currentY = Some (key el) \<rparr>)"

definition groupElementsBy ::
  "(DOMElement \<Rightarrow> real) \<Rightarrow> DOMElement list \<Rightarrow> real \<Rightarrow> DOMElement list list" where
  "groupElementsBy key elements tolerance =
     (let sorted = js_sort (\<lambda>a b. key a - key b) elements;
          st = foldl (groupStep key tolerance)
                 \<lparr> rows = [], currentRow = [], currentY = None \<rparr> sorted
      in if length (currentRow st) > 1 then rows st @ [currentRow st] else rows st)"

definition rectTop :: "DOMElement \<Rightarrow> real" where
  "rectTop el = rect_y (rect el)"

definition rectLeft :: "DOMElement \<Rightarrow> real" where
  "rectLeft el = rect_x (rect el)"

definition groupElementsByRow :: "DOMElement list \<Rightarrow> real \<Rightarrow> DOMElement list list" where
  "groupElementsByRow elements tolerance = groupElementsBy rectTop elements tolerance"

definition groupElementsByColumn :: "DOMElement list \<Rightarrow> real \<Rightarrow> DOMElement list list" where
  "groupElementsByColumn elements tolerance = groupElementsBy rectLeft elements tolerance"

text \<open>
  A \<open>Map\<close> from numbers to counts, in insertion order:
  \<open>m.set(k, (m.get(k) || 0) + 1)\<close>.
\<close>

fun bump_count :: "'k \<Rightarrow> ('k \<times> nat) list \<Rightarrow> ('k \<times> nat) list" where
  "bump_count k [] = [(k, 1)]"
| "bump_count k ((k', n) # r) = (if k' = k then (k', n + 1) # r else (k', n) # bump_count k r)"

definition countPositions :: "real list \<Rightarrow> (real \<times> nat) list" where
  "countPositions ps = foldl (\<lambda>m pos. bump_count pos m) [] ps"

definition horizontalIssue ::
  "ViewportSnapshot \<Rightarrow> real \<Rightarrow> DOMElement list \<Rightarrow> real \<Rightarrow> real \<Rightarrow> string \<Rightarrow> Issue" where
  "horizontalIssue snapshot tolerance row misalignment baseline ident =
     (let misalignedElements = filter (\<lambda>el. \<bar>rectTop el - baseline\<bar> > tolerance) row
      in \<lparr> issue_id = ident,
           issue_type = design_system,
           severity = medium,
           issue_viewport = name (viewport snapshot),
           element = join '', '' (map selector misalignedElements),
           message = Some [Lit ''Elements not aligned horizontally? '',
                           Lit ''Karen's OCD is triggered. Fix your layout.''],
           details =
             [(''alignmentType'', JStr ''horizontal''),
              (''misalignment'', JNum (real_of_int (Math_round misalignment))),
              (''tolerance'', JNum tolerance),
              (''baseline'', JNum baseline),
              (''elements'',
               JArr (map (\<lambda>el. JObj [(''selector'', JStr (selector el)),
                                       (''top'', JNum (rectTop el)),
                                       (''diff'', JNum \<bar>rectTop el - baseline\<bar>)]) row))],
           issue_screenshot = None,
           issue_fix = Some
             \<lparr> suggestion =
                 [Lit ''Align elements using flexbox or grid. Current misalignment: '',
                  Num (real_of_int (Math_round misalignment)), Lit ''px, tolerance: '',
                  Num tolerance, Lit ''px''],
               fix_code = Some
                 \<lparr> fix_file = ''styles/layout.css'',
                   before = [Lit ''.container > * {'', Lit [CHR 0x0A],
                             Lit ''  /* Elements misaligned by '',
                             Num (real_of_int (Math_round misalignment)), Lit ''px */'',
                             Lit [CHR 0x0A], Lit ''}''],
                   after = [Lit ''.container {'', Lit [CHR 0x0A], Lit ''  display: flex;'',
                            Lit [CHR 0x0A],
                            Lit ''  align-items: center; /* or align-items: flex-start; */'',
                            Lit [CHR 0x0A], Lit ''}''],
                   explanation = Some
                     [Lit ''Using flexbox ensures all items in a row maintain consistent '',
                      Lit ''vertical alignment''] \<rparr> \<rparr> \<rparr>)"

definition verticalIssue ::
  "ViewportSnapshot \<Rightarrow> real \<Rightarrow> DOMElement list \<Rightarrow> real \<Rightarrow> real \<Rightarrow> string \<Rightarrow> Issue" where
  "verticalIssue snapshot tolerance column misalignment baseline ident =
     (let misalignedElements = filter (\<lambda>el. \<bar>rectLeft el - baseline\<bar> > tolerance) column
      in \<lparr> issue_id = ident,
           issue_type = design_system,
           severity = medium,
           issue_viewport = name (viewport snapshot),
           element = join '', '' (map selector misalignedElements),
           message = Some [Lit ''Vertical alignment is off? Karen notices EVERYTHING. '',
                           Lit ''Time to fix your columns.''],
           details =
             [(''alignmentType'', JStr ''vertical''),
              (''misalignment'', JNum (real_of_int (Math_round misalignment))),
              (''tolerance'', JNum tolerance),
              (''baseline'', JNum baseline),
              (''elements'',
               JArr (map (\<lambda>el. JObj [(''selector'', JStr (selector el)),
                                       (''left'', JNum (rectLeft el)),
                                       (''diff'', JNum \<bar>rectLeft el - baseline\<bar>)]) column))],
           issue_screenshot = None,
           issue_fix = Some
             \<lparr> suggestion =
                 [Lit ''Align elements using grid or consistent margins. '',
                  Lit ''Current misalignment: '',
                  Num (real_of_int (Math_round misalignment)), Lit ''px, tolerance: '',
                  Num tolerance, Lit ''px''],
               fix_code = Some
                 \<lparr> fix_file = ''styles/layout.css'',
                   before = [Lit ''.container > * {'', Lit [CHR 0x0A],
                             Lit ''  /* Elements misaligned by '',
                             Num (real_of_int (Math_round misalignment)), Lit ''px */'',
                             Lit [CHR 0x0A], Lit ''}''],
                   after = [Lit ''.container {'', Lit [CHR 0x0A], Lit ''  display: grid;'',
                            Lit [CHR 0x0A],
                            Lit ''  grid-template-columns: repeat(auto-fit, minmax(200px, 1fr));'',
                            Lit [CHR 0x0A], Lit ''  gap: 1rem;'', Lit [CHR 0x0A], Lit ''}''],
                   explanation = Some
                     [Lit ''Using CSS Grid ensures consistent column alignment and spacing'']
                 \<rparr> \<rparr> \<rparr>)"

text \<open>
  The loop body shared by \<open>checkHorizontalAlignment\<close> (coordinate \<open>rect.y\<close>) and
  \<open>checkVerticalAlignment\<close> (coordinate \<open>rect.x\<close>). The list of positions of a row of two
  or more elements is not empty; on the empty list nothing is done.
\<close>

definition alignmentRowStep ::
  "(DOMElement \<Rightarrow> real) \<Rightarrow>
   (ViewportSnapshot \<Rightarrow> real \<Rightarrow> DOMElement list \<Rightarrow> real \<Rightarrow> real \<Rightarrow> string \<Rightarrow> Issue) \<Rightarrow>
   ViewportSnapshot \<Rightarrow> real \<Rightarrow> DOMElement list \<Rightarrow> Issue list \<times> nat \<Rightarrow>
   error + Issue list \<times> nat" where
  "alignmentRowStep key mk snapshot tolerance row s =
     (if length row < 2 then Inr s
      else
        (case map key row of
           [] \<Rightarrow> Inr s
         | p # ps \<Rightarrow>
             (let minPos = foldl min p ps;
                  maxPos = foldl max p ps;
                  misalignment = maxPos - minPos
              in if misalignment > tolerance then
                   (case reduce (\<lambda>a b. if snd a > snd b then a else b)
                           (countPositions (p # ps)) of
                      Inl e \<Rightarrow> Inl e
                    | Inr entry \<Rightarrow>
                        (let baseline = fst entry;
                             (ident, c) = generateId ''ALN'' (snd s)
                         in Inr (fst s @ [mk snapshot tolerance row misalignment baseline ident],
                                 c)))
                 else Inr s)))"

definition checkHorizontalAlignment ::
  "ViewportSnapshot \<Rightarrow> real \<Rightarrow> nat \<Rightarrow> error + Issue list \<times> nat" where
  "checkHorizontalAlignment snapshot tolerance c =
     for_each (alignmentRowStep rectTop horizontalIssue snapshot tolerance)
       (groupElementsByRow (snapshot_dom snapshot) tolerance) ([], c)"

definition checkVerticalAlignment ::
  "ViewportSnapshot \<Rightarrow> real \<Rightarrow> nat \<Rightarrow> error + Issue list \<times> nat" where
  "checkVerticalAlignment snapshot tolerance c =
     for_each (alignmentRowStep rectLeft verticalIssue snapshot tolerance)
       (groupElementsByColumn (snapshot_dom snapshot) tolerance) ([], c)"

text \<open>Grid gaps: the two maps from a rounded gap to the number of times it occurs.\<close>

definition gridOrder :: "DOMElement \<Rightarrow> DOMElement \<Rightarrow> real" where
  "gridOrder a b = (if \<bar>rectTop a - rectTop b\<bar> < 10 then rectLeft a - rectLeft b else rectTop a - rectTop b)"

definition gapStep ::
  "(int \<times> nat) list \<times> (int \<times> nat) list \<Rightarrow> DOMElement \<times> DOMElement \<Rightarrow>
   (int \<times> nat) list \<times> (int \<times> nat) list" where
  "gapStep maps pair =
     (let (horizontalGaps, verticalGaps) = maps;
          (current, next) = pair;
          h = (if \<bar>rectTop current - rectTop next\<bar> < 10 then
                 (let gap = rectLeft next - (rectLeft current + rect_width (rect current))
                  in if gap > 0 then bump_count (Math_round gap) horizontalGaps
                     else horizontalGaps)
               else horizontalGaps);
          v = (if \<bar>rectLeft current - rectLeft next\<bar> < 10 then
                 (let gap = rectTop next - (rectTop current + rect_height (rect current))
                  in if gap > 0 then bump_count (Math_round gap) verticalGaps
                     else verticalGaps)
               else verticalGaps)
      in (h, v))"

definition calculateGaps :: "DOMElement list \<Rightarrow> (int \<times> nat) list \<times> (int \<times> nat) list" where
  "calculateGaps elements =
     (let sorted = js_sort gridOrder elements
      in foldl gapStep ([], []) (zip sorted (tl sorted)))"

text \<open>
  \<open>Array.from(m.values()).reduce((a, b) => a + b, 0) / m.size\<close>: the values of the map
  are its counts. On the empty map this is \<open>0 / 0\<close>, which is \<open>NaN\<close>.
\<close>

definition valuesAverage :: "(int \<times> nat) list \<Rightarrow> real option" where
  "valuesAverage m =
     (if m = [] then None
      else Some (real (foldl (\<lambda>a b. a + b) 0 (map snd m)) / real (length m)))"

definition rounded_json :: "real option \<Rightarrow> json" where
  "rounded_json v = (case v of None \<Rightarrow> JNaN | Some a \<Rightarrow> JNum (real_of_int (Math_round a)))"

definition rounded_piece :: "real option \<Rightarrow> piece" where
  "rounded_piece v = (case v of None \<Rightarrow> Lit ''NaN'' | Some a \<Rightarrow> Num (real_of_int (Math_round a)))"

definition gapEntries :: "(int \<times> nat) list \<Rightarrow> json" where
  "gapEntries m =
     JArr (map (\<lambda>(gap, n). JObj [(''gap'', JNum (real_of_int gap)),
                                       (''count'', JNum (real n))]) m)"

definition gridIssue ::
  "ViewportSnapshot \<Rightarrow> DOMElement \<Rightarrow> (int \<times> nat) list \<times> (int \<times> nat) list \<Rightarrow> string \<Rightarrow> Issue" where
  "gridIssue snapshot container gaps ident =
     (let avgHorizontalGap = valuesAverage (fst gaps);
          avgVerticalGap = valuesAverage (snd gaps)
      in \<lparr> issue_id = ident,
           issue_type = design_system,
           severity = medium,
           issue_viewport = name (viewport snapshot),
           element = selector container,
           message = Some [Lit ''Inconsistent grid spacing? '',
                           Lit ''Karen demands perfect symmetry in your layouts.''],
           details =
             [(''alignmentType'', JStr ''grid''),
              (''childCount'', JNum (real (length (children container)))),
              (''horizontalGaps'', gapEntries (fst gaps)),
              (''verticalGaps'', gapEntries (snd gaps)),
              (''suggestedHorizontalGap'', rounded_json avgHorizontalGap),
              (''suggestedVerticalGap'', rounded_json avgVerticalGap)],
           issue_screenshot = None,
           issue_fix = Some
             \<lparr> suggestion = [Lit ''Use CSS Grid with consistent gap values''],
               fix_code = Some
                 \<lparr> fix_file = ''styles/layout.css'',
                   before = [Lit (selector container), Lit '' {'', Lit [CHR 0x0A],
                             Lit ''  /* Inconsistent spacing */'', Lit [CHR 0x0A], Lit ''}''],
                   after = [Lit (selector container), Lit '' {'', Lit [CHR 0x0A],
                            Lit ''  display: grid;'', Lit [CHR 0x0A],
                            Lit ''  grid-template-columns: repeat(auto-fill, minmax(250px, 1fr));'',
                            Lit [CHR 0x0A], Lit ''  gap: '', rounded_piece avgVerticalGap,
                            Lit ''px '', rounded_piece avgHorizontalGap, Lit ''px;'',
                            Lit [CHR 0x0A], Lit ''}''],
                   explanation = Some
                     [Lit ''CSS Grid with consistent gap ensures uniform spacing between items'']
                 \<rparr> \<rparr> \<rparr>)"

definition gridContainerStep ::
  "ViewportSnapshot \<Rightarrow> Issue list \<times> nat \<Rightarrow> DOMElement \<Rightarrow> Issue list \<times> nat" where
  "gridContainerStep snapshot s container =
     (if length (children container) < 4 then s
      else
        (let gaps = calculateGaps (children container)
         in if length (fst gaps) > 3 \<or> length (snd gaps) > 3 then
              (let (ident, c) = generateId ''ALN'' (snd s)
               in (fst s @ [gridIssue snapshot container gaps ident], c))
            else s))"

definition checkGridAlignment :: "ViewportSnapshot \<Rightarrow> real \<Rightarrow> nat \<Rightarrow> Issue list \<times> nat" where
  "checkGridAlignment snapshot tolerance c =
     (let gridContainers = filter (\<lambda>el. length (children el) \<ge> 4) (snapshot_dom snapshot)
      in foldl (gridContainerStep snapshot) ([], c) gridContainers)"

text \<open>\<open>issues.push(...f())\<close> where \<open>f\<close> may throw and advances the counter.\<close>

definition push_all ::
  "(nat \<Rightarrow> error + Issue list \<times> nat) \<Rightarrow> Issue list \<times> nat \<Rightarrow> error + Issue list \<times> nat" where
  "push_all f s =
     (case f (snd s) of
        Inl e \<Rightarrow> Inl e
      | Inr (found, c) \<Rightarrow> Inr (fst s @ found, c))"

definition misalignmentSnapshotStep ::
  "real \<Rightarrow> ViewportSnapshot \<Rightarrow> Issue list \<times> nat \<Rightarrow> error + Issue list \<times> nat" where
  "misalignmentSnapshotStep tolerance snapshot s =
     (case push_all (checkHorizontalAlignment snapshot tolerance) s of
        Inl e \<Rightarrow> Inl e
      | Inr s1 \<Rightarrow>
          (case push_all (checkVerticalAlignment snapshot tolerance) s1 of
             Inl e \<Rightarrow> Inl e
           | Inr s2 \<Rightarrow> push_all (\<lambda>c. Inr (checkGridAlignment snapshot tolerance c)) s2))"

definition detectMisalignment ::
  "ViewportSnapshot list \<Rightarrow> KarenConfig \<Rightarrow> nat \<Rightarrow> error + Issue list \<times> nat" where
  "detectMisalignment snapshots config c =
     for_each (misalignmentSnapshotStep (alignTolerancePx config)) snapshots ([], c)"

section \<open>Fixed widths on the mobile viewport (detectors/responsive.ts, detectFixedWidths)\<close>

definition isMobile :: "ViewportSnapshot \<Rightarrow> bool" where
  "isMobile s = (width (viewport s) \<le> 414 \<and> width (viewport s) \<ge> 320)"

definition fixedWidthIssue ::
  "ViewportSnapshot \<Rightarrow> DOMElement \<Rightarrow> string \<Rightarrow> int \<Rightarrow> string \<Rightarrow> Issue" where
  "fixedWidthIssue mobile el widthStr widthValue ident =
     (let viewportWidth = width (viewport mobile)
      in \<lparr> issue_id = ident,
           issue_type = overflow,
           severity = high,
           issue_viewport = name (viewport mobile),
           element = selector el,
           message = Some [Lit ''Fixed width of '', Num (real_of_int widthValue),
                           Lit ''px on a '', Num viewportWidth,
                           Lit ''px screen? Math isn't your strong suit, is it?''],
           details =
             [(''elementWidth'', JNum (real_of_int widthValue)),
              (''viewportWidth'', JNum viewportWidth),
              (''overflow'', JNum (real_of_int widthValue - viewportWidth))],
           issue_screenshot = None,
           issue_fix = Some
             \<lparr> suggestion = [Lit ''Use responsive width or max-width constraint''],
               fix_code = Some
                 \<lparr> fix_file = ''styles/responsive.css'',
                   before = [Lit (selector el), Lit '' {'', Lit [CHR 0x0A], Lit ''  width: '',
                             Lit widthStr, Lit '';'', Lit [CHR 0x0A], Lit ''}''],
                   after = [Lit (selector el), Lit '' {'', Lit [CHR 0x0A],
                            Lit ''  width: 100%;'', Lit [CHR 0x0A], Lit ''  max-width: '',
                            Lit widthStr, Lit '';'', Lit [CHR 0x0A], Lit ''}''],
                   explanation = None \<rparr> \<rparr> \<rparr>)"

text \<open>
  The loop body of \<open>detectFixedWidths\<close>. \<open>parseInt\<close> reads the integer the width string
  begins with; if there is none the comparison with \<open>NaN\<close> is false.
\<close>

definition fixedWidthStep ::
  "ViewportSnapshot \<Rightarrow> Issue list \<times> nat \<Rightarrow> DOMElement \<Rightarrow> Issue list \<times> nat" where
  "fixedWidthStep mobile s el =
     (case computedStyle el ''width'' of
        None \<Rightarrow> s
      | Some widthStr \<Rightarrow>
          if widthStr = [] \<or> \<not> ends_with widthStr ''px'' then s
          else
            (case parseInt widthStr of
               None \<Rightarrow> s
             | Some widthValue \<Rightarrow>
                 if real_of_int widthValue > width (viewport mobile) then
                   (let (ident, c) = generateId ''RWD'' (snd s)
                    in (fst s @ [fixedWidthIssue mobile el widthStr widthValue ident], c))
                 else s))"

definition detectFixedWidths :: "ViewportSnapshot list \<Rightarrow> nat \<Rightarrow> Issue list \<times> nat" where
  "detectFixedWidths snapshots c =
     (case find_first isMobile snapshots of
        None \<Rightarrow> ([], c)
      | Some mobile \<Rightarrow> foldl (fixedWidthStep mobile) ([], c) (snapshot_dom mobile))"

section \<open>Color palette (detectors/colors.ts)\<close>

definition toUpperCase :: "string \<Rightarrow> string" where
  "toUpperCase s =
     map (\<lambda>c. case map_of (zip ''abcdefghijklmnopqrstuvwxyz'' ''ABCDEFGHIJKLMNOPQRSTUVWXYZ'') c of
                 None \<Rightarrow> c | Some u \<Rightarrow> u) s"

definition toLowerCase :: "string \<Rightarrow> string" where
  "toLowerCase s =
     map (\<lambda>c. case map_of (zip ''ABCDEFGHIJKLMNOPQRSTUVWXYZ'' ''abcdefghijklmnopqrstuvwxyz'') c of
                 None \<Rightarrow> c | Some l \<Rightarrow> l) s"

text \<open>\<open>x.toString(16)\<close> for a natural number.\<close>

fun show_hex_fuel :: "nat \<Rightarrow> nat \<Rightarrow> string" where
  "show_hex_fuel 0 n = []"
| "show_hex_fuel (Suc k) n =
     (if n < 16 then [''0123456789abcdef'' ! n]
      else show_hex_fuel k (n div 16) @ [''0123456789abcdef'' ! (n mod 16)])"

definition show_hex :: "nat \<Rightarrow> string" where
  "show_hex n = show_hex_fuel (Suc n) n"

definition rgbToHex :: "nat \<Rightarrow> nat \<Rightarrow> nat \<Rightarrow> string" where
  "rgbToHex r g b =
     ''#'' @ toUpperCase
       (concat (map (\<lambda>x. let hex = show_hex x in if length hex = 1 then CHR ''0'' # hex else hex)
                  [r, g, b]))"

text \<open>
  The pattern \<open>rgba?\((\d+),\s*(\d+),\s*(\d+)(?:,\s*([\d.]+))?\)\<close> at the start of a
  string; the fourth component is the alpha group when it took part in the match.
\<close>

definition match_rgba_at :: "string \<Rightarrow> (string \<times> string \<times> string \<times> string option) option" where
  "match_rgba_at s =
     (case (if starts_with s ''rgba('' then Some (drop 5 s)
            else if starts_with s ''rgb('' then Some (drop 4 s) else None) of
        None \<Rightarrow> None
      | Some s0 \<Rightarrow>
          (case digits_then CHR '','' s0 of
             None \<Rightarrow> None
           | Some (d1, s1) \<Rightarrow>
               (case digits_then CHR '','' (dropWhile is_space s1) of
                  None \<Rightarrow> None
                | Some (d2, s2) \<Rightarrow>
                    (let s3 = dropWhile is_space s2;
                         d3 = takeWhile is_digit s3
                     in if d3 = [] then None
                        else
                          (case dropWhile is_digit s3 of
                             [] \<Rightarrow> None
                           | c # rest \<Rightarrow>
                               if c = CHR '')'' then Some (d1, d2, d3, None)
                               else if c = CHR '','' then
                                 (let s4 = dropWhile is_space rest;
                                      a = takeWhile (\<lambda>x. is_digit x \<or> x = CHR ''.'') s4
                                  in if a = [] then None
                                     else
                                       (case dropWhile (\<lambda>x. is_digit x \<or> x = CHR ''.'') s4 of
                                          [] \<Rightarrow> None
                                        | e # _ \<Rightarrow> if e = CHR '')'' then Some (d1, d2, d3, Some a)
                                                  else None))
                               else None)))))"

definition namedColors :: "(string \<times> string) list" where
  "namedColors =
     [(''black'', ''#000000''), (''white'', ''#FFFFFF''), (''red'', ''#FF0000''),
      (''green'', ''#008000''), (''blue'', ''#0000FF''), (''yellow'', ''#FFFF00''),
      (''cyan'', ''#00FFFF''), (''magenta'', ''#FF00FF''), (''gray'', ''#808080''),
      (''grey'', ''#808080'')]"

text \<open>
  \<open>namedColors[color.toLowerCase()] || null\<close>. The table is an object literal, so the
  keys \<open>constructor\<close> and \<open>__proto__\<close> (the only lower-case names of \<open>Object.prototype\<close>)
  give the function \<open>Object\<close> and the object \<open>Object.prototype\<close>. Every later use of the
  result compares it by identity or converts it to a string, and no other result has the
  same conversion, so each of the two is represented by its conversion to a string.
\<close>

definition lookupNamedColor :: "string \<Rightarrow> string option" where
  "lookupNamedColor k =
     (case map_of namedColors k of
        Some hex \<Rightarrow> Some hex
      | None \<Rightarrow>
          if k = ''constructor'' then Some ''function Object() { [native code] }''
          else if k = ''__proto__'' then Some ''[object Object]''
          else None)"

definition normalizeColor :: "string \<Rightarrow> string option" where
  "normalizeColor color =
     (if color = [] \<or> color = ''transparent'' then None
      else if starts_with color ''#'' then Some (toUpperCase color)
      else
        (case search match_rgba_at color of
           Some (d1, d2, d3, alpha) \<Rightarrow>
             (let a = (case alpha of None \<Rightarrow> Some 1 | Some t \<Rightarrow> parseFloat t)
              in if a = Some 0 then None
                 else Some (rgbToHex (digits_val d1) (digits_val d2) (digits_val d3)))
         | None \<Rightarrow> lookupNamedColor (toLowerCase color)))"

definition hexToRgb :: "string \<Rightarrow> RGB" where
  "hexToRgb hex =
     (case match_hex hex of
        Some (h1, h2, h3) \<Rightarrow>
          \<lparr> rgb_r = parseInt16 h1, rgb_g = parseInt16 h2, rgb_b = parseInt16 h3 \<rparr>
      | None \<Rightarrow> \<lparr> rgb_r = 0, rgb_g = 0, rgb_b = 0 \<rparr>)"

definition colorDistance :: "string \<Rightarrow> string \<Rightarrow> real" where
  "colorDistance color1 color2 =
     (let rgb1 = hexToRgb color1;
          rgb2 = hexToRgb color2;
          rMean = (real (rgb_r rgb1) + real (rgb_r rgb2)) / 2;
          r = real (rgb_r rgb1) - real (rgb_r rgb2);
          g = real (rgb_g rgb1) - real (rgb_g rgb2);
          b = real (rgb_b rgb1) - real (rgb_b rgb2);
          weightR = 2 + rMean / 256;
          weightG = 4;
          weightB = 2 + (255 - rMean) / 256
      in sqrt (weightR * r * r + weightG * g * g + weightB * b * b))"

text \<open>
  \<open>findNearestColor\<close>: \<open>palette[0]\<close> is \<open>undefined\<close> on an empty palette, and the smallest
  distance starts as \<open>Infinity\<close> (\<open>None\<close>).
\<close>

definition findNearestColor :: "string \<Rightarrow> string list \<Rightarrow> string option" where
  "findNearestColor color palette =
     fst (foldl (\<lambda>(nearestColor, minDistance) paletteColor.
                   let distance = colorDistance color paletteColor
                   in if (case minDistance of None \<Rightarrow> True | Some m \<Rightarrow> distance < m)
                      then (Some paletteColor, Some distance)
                      else (nearestColor, minDistance))
            (case palette of [] \<Rightarrow> None | p # _ \<Rightarrow> Some p, None) palette)"

record ColorUsage =
  usage_count :: nat
  usage_elements :: "string list"

text \<open>
  One use of a normalized color by the element \<open>sel\<close>, in the \<open>Map\<close> \<open>usedColors\<close> (kept in
  insertion order).
\<close>

fun record_use :: "string \<Rightarrow> string \<Rightarrow> (string \<times> ColorUsage) list \<Rightarrow> (string \<times> ColorUsage) list" where
  "record_use color sel [] = [(color, \<lparr> usage_count = 1, usage_elements = [sel] \<rparr>)]"
| "record_use color sel ((k, u) # r) =
     (if k = color
      then (k, \<lparr> usage_count = usage_count u + 1,
                usage_elements = (if sel \<in> set (usage_elements u) then usage_elements u
                                  else usage_elements u @ [sel]) \<rparr>) # r
      else (k, u) # record_use color sel r)"

definition colorProperties :: "string list" where
  "colorProperties =
     [''color'', ''backgroundColor'', ''borderColor'', ''borderTopColor'',
      ''borderRightColor'', ''borderBottomColor'', ''borderLeftColor'']"

definition elementColors :: "DOMElement \<Rightarrow> string list" where
  "elementColors el =
     map shown
       (filter (\<lambda>c. truthy c \<and> c \<noteq> Some ''transparent'' \<and> c \<noteq> Some ''rgba(0, 0, 0, 0)'')
          (map (computedStyle el) colorProperties))"

definition collectElement ::
  "(string \<times> ColorUsage) list \<Rightarrow> DOMElement \<Rightarrow> (string \<times> ColorUsage) list" where
  "collectElement usedColors el =
     foldl (\<lambda>used color.
              case normalizeColor color of
                None \<Rightarrow> used
              | Some normalized \<Rightarrow> record_use normalized (selector el) used)
       usedColors (elementColors el)"

definition collectColors :: "ViewportSnapshot list \<Rightarrow> (string \<times> ColorUsage) list" where
  "collectColors snapshots =
     foldl (\<lambda>used snapshot. foldl collectElement used (snapshot_dom snapshot)) [] snapshots"

text \<open>
  The default \<open>sort()\<close> of an array of two strings compares them by code units, and
  \<open>[...new Set(xs)]\<close> keeps the first occurrence of each element.
\<close>

fun str_lt :: "string \<Rightarrow> string \<Rightarrow> bool" where
  "str_lt [] [] = False"
| "str_lt [] (b # bs) = True"
| "str_lt (a # as) [] = False"
| "str_lt (a # as) (b # bs) =
     ((of_char a :: nat) < of_char b \<or> (a = b \<and> str_lt as bs))"

definition pairKey :: "string \<Rightarrow> string \<Rightarrow> string" where
  "pairKey color1 color2 =
     join ''|'' (if str_lt color2 color1 then [color2, color1] else [color1, color2])"

definition dedupe :: "'a list \<Rightarrow> 'a list" where
  "dedupe xs = foldl (\<lambda>acc a. if a \<in> set acc then acc else acc @ [a]) [] xs"

definition nearDuplicateIssue ::
  "string \<Rightarrow> ColorUsage \<Rightarrow> string \<Rightarrow> ColorUsage \<Rightarrow> real \<Rightarrow> string \<Rightarrow> Issue" where
  "nearDuplicateIssue color1 data1 color2 data2 distance ident =
     \<lparr> issue_id = ident,
       issue_type = colors,
       severity = medium,
       issue_viewport = ''all'',
       element = ''Multiple elements'',
       message = Some [Lit ''Using '', Lit color1, Lit '' AND '', Lit color2,
                       Lit ''? Karen's not having it. Pick a system.''],
       details =
         [(''color1'', JStr color1),
          (''color2'', JStr color2),
          (''distance'', JNum (real_of_int (Math_round (distance * 100)) / 100)),
          (''occurrences1'', JNum (real (usage_count data1))),
          (''occurrences2'', JNum (real (usage_count data2))),
          (''affectedElements'',
           JArr (map JStr (take 5 (dedupe (usage_elements data1 @ usage_elements data2)))))],
       issue_screenshot = None,
       issue_fix = Some
         \<lparr> suggestion =
             [Lit ''Consolidate to a single color. Use '', Lit color1, Lit '' ('',
              Num (real (usage_count data1)), Lit '' occurrences) or '', Lit color2,
              Lit '' ('', Num (real (usage_count data2)), Lit '' occurrences).''],
           fix_code = Some
             \<lparr> fix_file = ''styles/colors.css'',
               before = [Lit ''color: '', Lit color2, Lit '';''],
               after = [Lit ''color: '', Lit color1, Lit '';''],
               explanation = None \<rparr> \<rparr> \<rparr>"

text \<open>
  The body of the inner loop over \<open>j\<close>, for the entry at \<open>i\<close> and the entry at \<open>j\<close>. The
  state is the issue list, the set \<open>processedPairs\<close> and the counter.
\<close>

definition pairStep ::
  "string \<times> ColorUsage \<Rightarrow> Issue list \<times> string list \<times> nat \<Rightarrow> string \<times> ColorUsage \<Rightarrow>
   Issue list \<times> string list \<times> nat" where
  "pairStep entry1 st entry2 =
     (let (color1, data1) = entry1;
          (color2, data2) = entry2;
          (issues, processedPairs, c) = st;
          key = pairKey color1 color2
      in if key \<in> set processedPairs then st
         else
           (let processed = processedPairs @ [key];
                distance = colorDistance color1 color2
            in if distance > 0 \<and> distance < 15 then
                 (let (ident, c') = generateId ''CLR'' c
                  in (issues @ [nearDuplicateIssue color1 data1 color2 data2 distance ident],
                      processed, c'))
               else (issues, processed, c)))"

text \<open>The loop over \<open>i\<close>: the entry at \<open>i\<close> is paired with every later entry.\<close>

fun nearDuplicateLoop ::
  "(string \<times> ColorUsage) list \<Rightarrow> Issue list \<times> string list \<times> nat \<Rightarrow>
   Issue list \<times> string list \<times> nat" where
  "nearDuplicateLoop [] st = st"
| "nearDuplicateLoop (entry # later) st = nearDuplicateLoop later (foldl (pairStep entry) st later)"

definition paletteIssue ::
  "string \<Rightarrow> ColorUsage \<Rightarrow> string option \<Rightarrow> real \<Rightarrow> string list \<Rightarrow> string \<Rightarrow> Issue" where
  "paletteIssue color usage nearestPaletteColor distanceToPalette palette ident =
     \<lparr> issue_id = ident,
       issue_type = colors,
       severity = low,
       issue_viewport = ''all'',
       element = (case usage_elements usage of [] \<Rightarrow> ''undefined'' | sel # _ \<Rightarrow> sel),
       message = Some [Lit ''Color '', Lit color,
                       Lit '' isn't in your palette. Karen suggests picking from your '',
                       Lit ''design system.''],
       details =
         [(''color'', JStr color),
          (''nearestPaletteColor'', json_of nearestPaletteColor),
          (''distanceToPalette'',
           JNum (real_of_int (Math_round (distanceToPalette * 100)) / 100)),
          (''occurrences'', JNum (real (usage_count usage))),
          (''palette'', JArr (map JStr palette))],
       issue_screenshot = None,
       issue_fix = Some
         \<lparr> suggestion = [Lit ''Use '', Lit (shown nearestPaletteColor),
                         Lit '' from your color palette instead''],
           fix_code = Some
             \<lparr> fix_file = ''styles/colors.css'',
               before = [Lit ''color: '', Lit color, Lit '';''],
               after = [Lit ''color: '', Lit (shown nearestPaletteColor), Lit '';''],
               explanation = None \<rparr> \<rparr> \<rparr>"

definition paletteStep ::
  "string list \<Rightarrow> Issue list \<times> nat \<Rightarrow> string \<times> ColorUsage \<Rightarrow> Issue list \<times> nat" where
  "paletteStep palette s entry =
     (let (color, usage) = entry
      in if usage_count usage < 3 then s
         else
           (let nearestPaletteColor = findNearestColor color palette;
                distanceToPalette = colorDistance color (shown nearestPaletteColor)
            in if distanceToPalette > 20 then
                 (let (ident, c) = generateId ''CLR'' (snd s)
                  in (fst s @ [paletteIssue color usage nearestPaletteColor distanceToPalette
                                 palette ident], c))
               else s))"

definition analyzeColors :: "ViewportSnapshot list \<Rightarrow> KarenConfig \<Rightarrow> nat \<Rightarrow> Issue list \<times> nat" where
  "analyzeColors snapshots config c =
     (let palette = colorPalette config;
          usedColors = collectColors snapshots;
          (nearIssues, processedPairs, c1) = nearDuplicateLoop usedColors ([], [], c)
      in foldl (paletteStep palette) (nearIssues, c1) usedColors)"

section \<open>Overflow (detectors/overflow.ts)\<close>

definition overflowRoasts :: "ViewportSnapshot \<Rightarrow> DOMElement \<Rightarrow> template list" where
  "overflowRoasts snapshot el =
     [ [Lit ''Sweetie, your '', Lit (tagName el),
        Lit '' is literally breaking its container on '', Lit (name (viewport snapshot)),
        Lit ''.''],
       [Lit ''Horizontal overflow on '', Lit (name (viewport snapshot)),
        Lit ''? Karen's not impressed with your CSS skills.''],
       [Lit ''Your '', Lit (tagName el),
        Lit '' thinks it's bigger than its container. Spoiler: it's not.''],
       [Lit ''Overflow issues? Really? Karen thought we left this in 2010.''] ]"

definition overflowIssue ::
  "ViewportSnapshot \<Rightarrow> DOMElement \<Rightarrow> string \<Rightarrow> string \<Rightarrow> template option \<Rightarrow> Issue" where
  "overflowIssue snapshot el overflowX ident msg =
     \<lparr> issue_id = ident,
       issue_type = overflow,
       severity = high,
       issue_viewport = name (viewport snapshot),
       element = selector el,
       message = msg,
       details =
         [(''overflow'', JStr ''horizontal''),
          (''elementWidth'', JNum (rect_width (rect el))),
          (''overflowType'', JStr overflowX),
          (''viewport'', JText [Num (width (viewport snapshot)), Lit ''x'',
                                 Num (height (viewport snapshot))])],
       issue_screenshot = Some (screenshot snapshot),
       issue_fix = Some
         \<lparr> suggestion = [Lit ''Add max-width: 100% or use clamp() for responsive sizing''],
           fix_code = Some
             \<lparr> fix_file = ''styles/layout.css'',
               before = [Lit (selector el), Lit '' {'', Lit [CHR 0x0A],
                         Lit ''  /* current styles */'', Lit [CHR 0x0A], Lit ''}''],
               after = [Lit (selector el), Lit '' {'', Lit [CHR 0x0A],
                        Lit ''  max-width: 100%;'', Lit [CHR 0x0A], Lit ''  overflow-x: auto;'',
                        Lit [CHR 0x0A], Lit ''}''],
               explanation = Some
                 [Lit ''Constrains the element to its container width and adds horizontal '',
                  Lit ''scrolling if needed''] \<rparr> \<rparr> \<rparr>"

definition overflowElementStep ::
  "ViewportSnapshot \<Rightarrow> Issue list \<times> world \<Rightarrow> DOMElement \<Rightarrow> Issue list \<times> world" where
  "overflowElementStep snapshot s el =
     (let overflowAll = or_else (computedStyle el ''overflow'') ''visible'';
          overflowX = or_else (computedStyle el ''overflowX'') overflowAll
      in if overflowX = ''visible'' \<and> overflowingElements (metrics snapshot) > 0
            \<and> rect_width (rect el) > 0
         then
           (let (ident, c) = generateId ''OVF'' (counter (snd s));
                (msg, w2) = pick_message (overflowRoasts snapshot el) ((snd s)\<lparr>counter := c\<rparr>)
            in (fst s @ [overflowIssue snapshot el overflowX ident msg], w2))
         else s)"

definition detectOverflow ::
  "ViewportSnapshot list \<Rightarrow> KarenConfig \<Rightarrow> world \<Rightarrow> Issue list \<times> world" where
  "detectOverflow snapshots config w =
     foldl (\<lambda>s snapshot. foldl (overflowElementStep snapshot) s (snapshot_dom snapshot))
       ([], w) snapshots"

section \<open>Typescale (detectors/typescale.ts)\<close>

definition textTags :: "string list" where
  "textTags = [''P'', ''H1'', ''H2'', ''H3'', ''H4'', ''H5'', ''H6'', ''SPAN'', ''DIV'', ''A'',
               ''LI'']"

definition typescaleRoasts :: "ViewportSnapshot \<Rightarrow> real \<Rightarrow> real \<Rightarrow> template list" where
  "typescaleRoasts snapshot fontSize nearest =
     [ [Lit ''Font sizes all over the place? Karen enforces hierarchy like it's the law on '',
        Lit (name (viewport snapshot)), Lit ''.''],
       [Num fontSize, Lit ''px font-size? Not in Karen's typescale, sweetie. Try '',
        Num nearest, Lit ''px.''],
       [Lit ''Random font sizes make Karen's eye twitch. Use '', Num nearest,
        Lit ''px from your typescale on '', Lit (name (viewport snapshot)), Lit ''.''],
       [Lit ''Typography chaos detected at '', Num fontSize, Lit ''px. Karen demands '',
        Num nearest, Lit ''px on '', Lit (name (viewport snapshot)), Lit ''.''] ]"

definition typescaleIssue ::
  "ViewportSnapshot \<Rightarrow> KarenConfig \<Rightarrow> DOMElement \<Rightarrow> real \<Rightarrow> real \<Rightarrow> string \<Rightarrow>
   template option \<Rightarrow> Issue" where
  "typescaleIssue snapshot config el fontSize nearest ident msg =
     \<lparr> issue_id = ident,
       issue_type = typescale,
       severity = medium,
       issue_viewport = name (viewport snapshot),
       element = selector el,
       message = msg,
       details =
         [(''fontSize'', JNum fontSize),
          (''nearestScaleValue'', JNum nearest),
          (''typescale'', JArr (map JNum (sizes (typescale_cfg config)))),
          (''difference'', JNum \<bar>double_sub fontSize nearest\<bar>)],
       issue_screenshot = None,
       issue_fix = Some
         \<lparr> suggestion = [Lit ''Use '', Num nearest, Lit ''px from your type scale''],
           fix_code = Some
             \<lparr> fix_file = ''styles/typography.css'',
               before = [Lit (selector el), Lit '' {'', Lit [CHR 0x0A], Lit ''  font-size: '',
                         Num fontSize, Lit ''px;'', Lit [CHR 0x0A], Lit ''}''],
               after = [Lit (selector el), Lit '' {'', Lit [CHR 0x0A], Lit ''  font-size: '',
                        Num nearest, Lit ''px;'', Lit [CHR 0x0A], Lit ''}''],
               explanation = Some
                 [Lit ''Aligns to the defined typescale with ratio '',
                  Num (ratio (typescale_cfg config))] \<rparr> \<rparr> \<rparr>"

text \<open>
  The loop body of \<open>enforceTypescale\<close>. A font size that does not parse is \<open>NaN\<close>, for
  which \<open>fontSize > 0\<close> is false.
\<close>

definition typescaleElementStep ::
  "ViewportSnapshot \<Rightarrow> KarenConfig \<Rightarrow> DOMElement \<Rightarrow> Issue list \<times> world \<Rightarrow>
   error + Issue list \<times> world" where
  "typescaleElementStep snapshot config el s =
     (case parseFloat (or_else (computedStyle el ''fontSize'') ''16px'') of
        None \<Rightarrow> Inr s
      | Some fontSize \<Rightarrow>
          if fontSize \<notin> set (sizes (typescale_cfg config)) \<and> fontSize > 0 then
            (case findNearest fontSize (sizes (typescale_cfg config)) of
               Inl e \<Rightarrow> Inl e
             | Inr nearest \<Rightarrow>
                 (let (ident, c) = generateId ''TYP'' (counter (snd s));
                      (msg, w2) = pick_message (typescaleRoasts snapshot fontSize nearest)
                                    ((snd s)\<lparr>counter := c\<rparr>)
                  in Inr (fst s @ [typescaleIssue snapshot config el fontSize nearest ident msg],
                          w2)))
          else Inr s)"

definition typescaleSnapshotStep ::
  "KarenConfig \<Rightarrow> ViewportSnapshot \<Rightarrow> Issue list \<times> world \<Rightarrow> error + Issue list \<times> world" where
  "typescaleSnapshotStep config snapshot s =
     for_each (typescaleElementStep snapshot config)
       (filter (\<lambda>el. tagName el \<in> set textTags) (snapshot_dom snapshot)) s"

definition enforceTypescale ::
  "ViewportSnapshot list \<Rightarrow> KarenConfig \<Rightarrow> world \<Rightarrow> error + Issue list \<times> world" where
  "enforceTypescale snapshots config w =
     for_each (typescaleSnapshotStep config) snapshots ([], w)"

section \<open>One audit run (core/audit-engine.ts, runAudit)\<close>

text \<open>
  The analyzers that are not modelled here make no call of \<open>Math.random\<close>; what they
  return is determined by the snapshots, the configuration and the counter. They are
  parameters of the run.
\<close>

record detectors =
  detectDesignSystemChaos :: "ViewportSnapshot list \<Rightarrow> nat \<Rightarrow> error + Issue list \<times> nat"
  enforceDesignTokens :: "ViewportSnapshot list \<Rightarrow> KarenConfig \<Rightarrow> nat \<Rightarrow> error + Issue list \<times> nat"
  detectNonResponsiveElements ::
    "ViewportSnapshot list \<Rightarrow> KarenConfig \<Rightarrow> nat \<Rightarrow> error + Issue list \<times> nat"
  detectResponsiveOverflow :: "ViewportSnapshot list \<Rightarrow> nat \<Rightarrow> error + Issue list \<times> nat"

definition enforceResponsiveDesign ::
  "detectors \<Rightarrow> ViewportSnapshot list \<Rightarrow> KarenConfig \<Rightarrow> nat \<Rightarrow> error + Issue list \<times> nat" where
  "enforceResponsiveDesign D snapshots config c =
     for_each push_all
       [detectNonResponsiveElements D snapshots config,
        (\<lambda>c. Inr (detectFixedWidths snapshots c)),
        detectResponsiveOverflow D snapshots]
       ([], c)"

text \<open>
  \<open>allIssues.push(...f(snapshots, config))\<close> for an analyzer that draws random numbers,
  and for one that only advances the counter.
\<close>

definition push_random ::
  "(world \<Rightarrow> error + Issue list \<times> world) \<Rightarrow> Issue list \<times> world \<Rightarrow> error + Issue list \<times> world" where
  "push_random f s =
     (case f (snd s) of
        Inl e \<Rightarrow> Inl e
      | Inr (found, w) \<Rightarrow> Inr (fst s @ found, w))"

definition push_counted ::
  "(nat \<Rightarrow> error + Issue list \<times> nat) \<Rightarrow> Issue list \<times> world \<Rightarrow> error + Issue list \<times> world" where
  "push_counted f s =
     (case f (counter (snd s)) of
        Inl e \<Rightarrow> Inl e
      | Inr (found, c) \<Rightarrow> Inr (fst s @ found, (snd s)\<lparr>counter := c\<rparr>))"

definition when_enabled ::
  "KarenConfig \<Rightarrow> AuditFeature \<Rightarrow> (Issue list \<times> world \<Rightarrow> error + Issue list \<times> world) list \<Rightarrow>
   Issue list \<times> world \<Rightarrow> error + Issue list \<times> world" where
  "when_enabled config feature steps s =
     (if feature \<in> set (features config) then for_each (\<lambda>step. step) steps s else Inr s)"

text \<open>
  The second phase of \<open>runAudit\<close> on given snapshots: the counter is reset, then each
  enabled analyzer runs in turn. An exception ends the run (\<open>runAudit\<close> turns it into an
  error result). The capture of the snapshots and the optional analysis of screenshots
  by a remote service lie outside.
\<close>

definition runDetectors ::
  "detectors \<Rightarrow> ViewportSnapshot list \<Rightarrow> KarenConfig \<Rightarrow> world \<Rightarrow> error + Issue list \<times> world" where
  "runDetectors D snapshots config w =
     for_each (\<lambda>step. step)
       [when_enabled config overflow
          [push_random (\<lambda>w. Inr (detectOverflow snapshots config w))],
        when_enabled config spacing
          [push_random (analyzeSpacing snapshots config)],
        when_enabled config typescale
          [push_random (enforceTypescale snapshots config)],
        when_enabled config accessibility
          [push_random (\<lambda>w. Inr (checkAccessibility snapshots config w))],
        when_enabled config colors
          [push_counted (\<lambda>c. Inr (analyzeColors snapshots config c))],
        when_enabled config design_system
          [push_counted (detectDesignSystemChaos D snapshots),
           push_counted (detectMisalignment snapshots config),
           push_counted (enforceDesignTokens D snapshots config),
           push_counted (enforceResponsiveDesign D snapshots config)]]
       ([], resetCounter w)"

section \<open>Summary of an audit (core/audit-engine.ts, buildSummary)\<close>

text \<open>
  \<open>byViewport\<close> starts as the object literal \<open>{}\<close> and is indexed with the viewport name of
  each issue. Reading a property of such an object finds an own property, or else a
  property of \<open>Object.prototype\<close> (a function, or the prototype itself under \<open>__proto__\<close>),
  or else \<open>undefined\<close>. An own counter is a number, \<open>None\<close> standing for \<open>NaN\<close>.
\<close>

definition objectPrototypeNames :: "string list" where
  "objectPrototypeNames =
     [''constructor'', ''__defineGetter__'', ''__defineSetter__'', ''hasOwnProperty'',
      ''__lookupGetter__'', ''__lookupSetter__'', ''isPrototypeOf'',
      ''propertyIsEnumerable'', ''toString'', ''valueOf'', ''__proto__'',
      ''toLocaleString'']"

datatype slot = Absent | Inherited | Own "nat option"

definition readProp :: "(string \<times> nat option) list \<Rightarrow> string \<Rightarrow> slot" where
  "readProp obj k =
     (case map_of obj k of
        Some v \<Rightarrow> Own v
      | None \<Rightarrow> if k \<in> set objectPrototypeNames then Inherited else Absent)"

text \<open>Truthiness: \<open>undefined\<close>, \<open>0\<close> and \<open>NaN\<close> are falsy, an object is truthy.\<close>

definition slot_truthy :: "slot \<Rightarrow> bool" where
  "slot_truthy s =
     (case s of
        Absent \<Rightarrow> False
      | Inherited \<Rightarrow> True
      | Own None \<Rightarrow> False
      | Own (Some n) \<Rightarrow> n \<noteq> 0)"

fun set_own :: "string \<Rightarrow> nat option \<Rightarrow> (string \<times> nat option) list \<Rightarrow> (string \<times> nat option) list" where
  "set_own k v [] = [(k, v)]"
| "set_own k v ((k', v') # r) = (if k' = k then (k, v) # r else (k', v') # set_own k v r)"

text \<open>
  Assigning a number: under \<open>__proto__\<close> the inherited setter ignores a value that is not
  an object; under any other name an own property is written.
\<close>

definition writeProp ::
  "(string \<times> nat option) list \<Rightarrow> string \<Rightarrow> nat option \<Rightarrow> (string \<times> nat option) list" where
  "writeProp obj k v = (if k = ''__proto__'' then obj else set_own k v obj)"

text \<open>\<open>obj[k]++\<close>: the old value is converted to a number, a function or object giving \<open>NaN\<close>.\<close>

definition incremented :: "slot \<Rightarrow> nat option" where
  "incremented s =
     (case s of
        Own (Some n) \<Rightarrow> Some (n + 1)
      | Own None \<Rightarrow> None
      | Inherited \<Rightarrow> None
      | Absent \<Rightarrow> None)"

definition bumpViewport :: "(string \<times> nat option) list \<Rightarrow> string \<Rightarrow> (string \<times> nat option) list" where
  "bumpViewport obj k =
     (let obj1 = (if \<not> slot_truthy (readProp obj k) then writeProp obj k (Some 0) else obj)
      in writeProp obj1 k (incremented (readProp obj1 k)))"

record AuditSummary =
  total :: nat
  criticalN :: nat
  highN :: nat
  mediumN :: nat
  lowN :: nat
  byType :: "AuditFeature \<Rightarrow> nat"
  byViewport :: "(string \<times> nat option) list"

definition summaryStep :: "AuditSummary \<Rightarrow> Issue \<Rightarrow> AuditSummary" where
  "summaryStep s issue =
     s\<lparr> byType := (byType s)(issue_type issue := byType s (issue_type issue) + 1),
        byViewport := bumpViewport (byViewport s) (issue_viewport issue) \<rparr>"

definition buildSummary :: "Issue list \<Rightarrow> AuditSummary" where
  "buildSummary issues =
     foldl summaryStep
       \<lparr> total = length issues,
         criticalN = length (filter (\<lambda>i. severity i = critical) issues),
         highN = length (filter (\<lambda>i. severity i = high) issues),
         mediumN = length (filter (\<lambda>i. severity i = medium) issues),
         lowN = length (filter (\<lambda>i. severity i = low) issues),
         byType = (\<lambda>_. 0),
         byViewport = [] \<rparr>
       issues"

text \<open>The sum of the counters of \<open>byViewport\<close>; a \<open>NaN\<close> among them makes the sum \<open>NaN\<close>.\<close>

fun sum_counters :: "nat option list \<Rightarrow> nat option" where
  "sum_counters [] = Some 0"
| "sum_counters (None # r) = None"
| "sum_counters (Some n # r) = (case sum_counters r of None \<Rightarrow> None | Some m \<Rightarrow> Some (n + m))"

section \<open>Predicates used in the statements\<close>

text \<open>An issue without its message, and what one run lets an observer see of its result.\<close>

definition without_message :: "Issue \<Rightarrow> Issue" where
  "without_message i = i\<lparr>message := None\<rparr>"

definition observed :: "error + Issue list \<times> world \<Rightarrow> error + Issue list" where
  "observed res = (case res of Inl e \<Rightarrow> Inl e | Inr s \<Rightarrow> Inr (map without_message (fst s)))"

text \<open>Two states of a run that agree on the issues, up to their messages, and on the counter.\<close>

definition alike :: "Issue list \<times> world \<Rightarrow> Issue list \<times> world \<Rightarrow> bool" where
  "alike s t = (map without_message (fst s) = map without_message (fst t)
                \<and> counter (snd s) = counter (snd t))"


text \<open>
  An issue reports, under \<open>value\<close>, a number whose difference from every scale entry, as the
  code computes it, is 1 or more in absolute value.
\<close>

definition offScale :: "real list \<Rightarrow> Issue \<Rightarrow> bool" where
  "offScale scale i =
     (\<exists>u. map_of (details i) ''value'' = Some (JNum u)
          \<and> (\<forall>s \<in> set scale. \<not> \<bar>double_sub u s\<bar> < 1))"

text \<open>
  An object whose own properties are all positive counters under names that
  \<open>Object.prototype\<close> does not define.
\<close>

definition plain :: "(string \<times> nat option) list \<Rightarrow> bool" where
  "plain obj =
     list_all (\<lambda>(k, v). k \<notin> set objectPrototypeNames \<and> (\<exists>n. v = Some (Suc n))) obj"

text \<open>
  The pairs of a list, each element with every later one, in the order in which the two
  nested loops of \<open>analyzeColors\<close> visit them.
\<close>

fun all_pairs :: "'a list \<Rightarrow> ('a \<times> 'a) list" where
  "all_pairs [] = []"
| "all_pairs (a # later) = map (Pair a) later @ all_pairs later"

text \<open>Two colors are near duplicates: their distance is above 0 and below 15.\<close>

definition nearDuplicate :: "string \<times> string \<Rightarrow> bool" where
  "nearDuplicate p = (0 < colorDistance (fst p) (snd p) \<and> colorDistance (fst p) (snd p) < 15)"

text \<open>
  What an issue says about a pair of colors: the two colors of its details, and the
  replacement its fix makes (the text after, the text before).
\<close>

definition consolidation :: "Issue \<Rightarrow> json option \<times> json option \<times> template \<times> template" where
  "consolidation i =
     (map_of (details i) ''color1'', map_of (details i) ''color2'',
      (case issue_fix i of
         None \<Rightarrow> []
       | Some f \<Rightarrow> (case fix_code f of None \<Rightarrow> [] | Some cd \<Rightarrow> after cd)),
      (case issue_fix i of
         None \<Rightarrow> []
       | Some f \<Rightarrow> (case fix_code f of None \<Rightarrow> [] | Some cd \<Rightarrow> before cd)))"

text \<open>The consolidation onto the first color of a pair.\<close>

definition ontoFirst :: "string \<times> string \<Rightarrow> json option \<times> json option \<times> template \<times> template" where
  "ontoFirst p =
     (Some (JStr (fst p)), Some (JStr (snd p)),
      [Lit ''color: '', Lit (fst p), Lit '';''], [Lit ''color: '', Lit (snd p), Lit '';''])"

definition mediumIssues :: "Issue list \<Rightarrow> Issue list" where
  "mediumIssues issues = filter (\<lambda>i. severity i = medium) issues"

definition noBar :: "string \<Rightarrow> bool" where
  "noBar k = (CHR ''|'' \<notin> set k)"

text \<open>
  The spread of the positions of a cluster: the largest minus the smallest, as the
  alignment checks compute it.
\<close>

definition spread :: "real list \<Rightarrow> real" where
  "spread ps = (case ps of [] \<Rightarrow> 0 | p # r \<Rightarrow> foldl max p r - foldl min p r)"

text \<open>All positions of a cluster lie between some \<open>c\<close> and \<open>c + tolerance\<close>.\<close>

definition bounded_within :: "('a \<Rightarrow> real) \<Rightarrow> real \<Rightarrow> 'a list \<Rightarrow> bool" where
  "bounded_within key tolerance row = (\<exists>c. \<forall>e \<in> set row. c \<le> key e \<and> key e \<le> c + tolerance)"

text \<open>
  The invariant of the grouping loop, with \<open>rest\<close> the elements still to come: the rows
  already closed are not empty and are bounded, and the elements of the open row and of \<open>rest\<close> are not
  before the anchor, those of the open row at most the tolerance after it.
\<close>

definition grouping_inv ::
  "(DOMElement \<Rightarrow> real) \<Rightarrow> real \<Rightarrow> grouping \<Rightarrow> DOMElement list \<Rightarrow> bool" where
  "grouping_inv key tolerance st rest =
     ((\<forall>row \<in> set (rows st). row \<noteq> [] \<and> bounded_within key tolerance row) \<and>
      (case currentY st of
         None \<Rightarrow> currentRow st = []
       | Some cy \<Rightarrow>
           (\<forall>e \<in> set (currentRow st). cy \<le> key e \<and> (key e = cy \<or> key e \<le> cy + tolerance))
           \<and> (length (currentRow st) > 1 \<longrightarrow> 0 \<le> tolerance)
           \<and> (\<forall>e \<in> set rest. cy \<le> key e)))"





section \<open>Concrete inputs\<close>

definition plainRect :: ElementRect where
  "plainRect = \<lparr> rect_x = 0, rect_y = 0, rect_width = 100, rect_height = 100 \<rparr>"

definition noMetrics :: LayoutMetrics where
  "noMetrics = \<lparr> totalElements = 1, visibleElements = 1, overflowingElements = 0,
                  performanceScore = 0 \<rparr>"

definition mobileSnapshot :: "DOMElement list \<Rightarrow> ViewportSnapshot" where
  "mobileSnapshot els =
     \<lparr> viewport = \<lparr> name = ''mobile'', width = 375, height = 667 \<rparr>,
       screenshot = [], snapshot_dom = els, metrics = noMetrics, errors = [] \<rparr>"

definition defaultConfig :: KarenConfig where
  "defaultConfig =
     \<lparr> spacingScale = [0, 4, 8, 12, 16, 24, 32, 48, 64],
       typescale_cfg = \<lparr> base = 16, ratio = 5 / 4, sizes = [12, 14, 16, 20, 25, 31, 39, 49] \<rparr>,
       colorPalette = [''#F5E6D3'', ''#D4A574'', ''#8B7355'', ''#E8998D'', ''#9CA986'',
                       ''#B4A7D6''],
       breakpoints = [],
       alignTolerancePx = 4,
       contrastRatios = \<lparr> AA = 9 / 2, AAA = 7 \<rparr>,
       features = [overflow, spacing, typescale, colors, accessibility, design_system] \<rparr>"

definition styled :: "string \<Rightarrow> (string \<Rightarrow> string option) \<Rightarrow> DOMElement" where
  "styled sel st = DOMElement sel ''DIV'' [] [] plainRect st []"

definition sampleIssue :: "IssueSeverity \<Rightarrow> string \<Rightarrow> Issue" where
  "sampleIssue sev vp =
     \<lparr> issue_id = ''KRN-0001'', issue_type = spacing, severity = sev, issue_viewport = vp,
       element = ''.test'', message = None, details = [], issue_screenshot = None,
       issue_fix = None \<rparr>"

definition spacingSample :: "ViewportSnapshot list" where
  "spacingSample =
     [mobileSnapshot [styled ''.test'' [''margin'' \<mapsto> ''15px'', ''padding'' \<mapsto> ''8px'']]]"

text \<open>A margin of one pixel, and a spacing scale whose only entry is \<open>1 / 2 ^ 60\<close>.\<close>

definition onePixelMargin :: "ViewportSnapshot list" where
  "onePixelMargin = [mobileSnapshot [styled ''.test'' [''margin'' \<mapsto> ''1px'']]]"

definition tinyScaleConfig :: KarenConfig where
  "tinyScaleConfig = defaultConfig\<lparr>spacingScale := [1 / 2 ^ 60]\<rparr>"

definition black :: RGB where
  "black = \<lparr> rgb_r = 0, rgb_g = 0, rgb_b = 0 \<rparr>"

definition white :: RGB where
  "white = \<lparr> rgb_r = 255, rgb_g = 255, rgb_b = 255 \<rparr>"

definition whiteOnTransparent :: DOMElement where
  "whiteOnTransparent =
     styled ''.hero''
       [''fontSize'' \<mapsto> ''16px'', ''color'' \<mapsto> ''rgb(255, 255, 255)'',
        ''backgroundColor'' \<mapsto> ''rgba(0, 0, 0, 0)'']"




definition snapshotAt :: "string \<Rightarrow> real \<Rightarrow> DOMElement list \<Rightarrow> ViewportSnapshot" where
  "snapshotAt n w els =
     \<lparr> viewport = \<lparr> name = n, width = w, height = 800 \<rparr>,
       screenshot = [], snapshot_dom = els, metrics = noMetrics, errors = [] \<rparr>"

definition boxAt :: "string \<Rightarrow> real \<Rightarrow> real \<Rightarrow> DOMElement" where
  "boxAt sel px py =
     DOMElement sel ''DIV'' [] []
       \<lparr> rect_x = px, rect_y = py, rect_width = 200, rect_height = 50 \<rparr> Map.empty []"

text \<open>The three items of the alignment test at tolerance 20.\<close>

definition threeItems :: "DOMElement list" where
  "threeItems = [boxAt ''.item-1'' 0 100, boxAt ''.item-2'' 250 110, boxAt ''.item-3'' 500 122]"

text \<open>
  A container with five children of width 100 in one row, at the horizontal positions
  0, 110, 230, 360 and 500: the gaps between neighbours are 10, 20, 30 and 40.
\<close>

definition cellAt :: "string \<Rightarrow> real \<Rightarrow> DOMElement" where
  "cellAt sel px =
     DOMElement sel ''DIV'' [] []
       \<lparr> rect_x = px, rect_y = 0, rect_width = 100, rect_height = 50 \<rparr> Map.empty []"

definition unevenGrid :: DOMElement where
  "unevenGrid =
     DOMElement ''.grid'' ''DIV'' [''grid''] []
       \<lparr> rect_x = 0, rect_y = 0, rect_width = 600, rect_height = 50 \<rparr> Map.empty
       [cellAt ''.c1'' 0, cellAt ''.c2'' 110, cellAt ''.c3'' 230, cellAt ''.c4'' 360,
        cellAt ''.c5'' 500]"

text \<open>
  One element uses \<open>#AABBC5\<close> three times, the next uses \<open>#AABBCC\<close> five times.
\<close>

definition paletteSample :: "ViewportSnapshot list" where
  "paletteSample =
     [mobileSnapshot
        [styled ''.first''
           [''color'' \<mapsto> ''#AABBC5'', ''backgroundColor'' \<mapsto> ''#AABBC5'',
            ''borderColor'' \<mapsto> ''#AABBC5''],
         styled ''.second''
           [''color'' \<mapsto> ''#AABBCC'', ''backgroundColor'' \<mapsto> ''#AABBCC'',
            ''borderColor'' \<mapsto> ''#AABBCC'', ''borderTopColor'' \<mapsto> ''#AABBCC'',
            ''borderRightColor'' \<mapsto> ''#AABBCC'']]]"

text \<open>The same two elements in the other order: \<open>#AABBCC\<close> is collected first.\<close>

definition paletteScenario :: "ViewportSnapshot list" where
  "paletteScenario =
     [mobileSnapshot (rev (snapshot_dom (hd paletteSample)))]"

text \<open>Stand-ins for the analyzers that are parameters of a run: they report nothing.\<close>

definition silentDetectors :: detectors where
  "silentDetectors =
     \<lparr> detectDesignSystemChaos = (\<lambda>snapshots c. Inr ([], c)),
       enforceDesignTokens = (\<lambda>snapshots config c. Inr ([], c)),
       detectNonResponsiveElements = (\<lambda>snapshots config c. Inr ([], c)),
       detectResponsiveOverflow = (\<lambda>snapshots c. Inr ([], c)) \<rparr>"

definition startWorld :: world where
  "startWorld = \<lparr> counter = 0, entropy = (\<lambda>n. 0) \<rparr>"

text \<open>A later state of the same process: the counter has advanced and the draws differ.\<close>

definition laterWorld :: world where
  "laterWorld = \<lparr> counter = 17, entropy = (\<lambda>n. 3 / 4) \<rparr>"

section \<open>Verification\<close>

subsection \<open>Rounding to doubles\<close>

lemma pow2_powr: "pow2 e = 2 powr (of_int e)"
  by (simp add: pow2_def powr_int)

lemma pow2_pos: "0 < pow2 e"
  by (simp add: pow2_def)

lemma pow2_mono: "e \<le> e' \<Longrightarrow> pow2 e \<le> pow2 e'"
  by (simp add: pow2_powr)

text \<open>\<open>List.find\<close> on an interval of integers returns the least element that qualifies.\<close>

lemma find_upto_least:
  assumes "a \<le> e" "e \<le> b" "P e"
  shows "\<exists>e'. List.find P [a..b] = Some e' \<and> a \<le> e' \<and> e' \<le> e \<and> P e'
              \<and> (\<forall>j. a \<le> j \<and> j < e' \<longrightarrow> \<not> P j)"
  using assms
proof (induction "nat (e - a)" arbitrary: a)
  case 0
  then have "a = e" by simp
  then show ?case using "0.prems" by (auto simp: upto.simps [of e b])
next
  case (Suc n)
  then have ab: "a \<le> b" by simp
  show ?case
  proof (cases "P a")
    case True
    then show ?thesis using ab Suc.prems by (auto simp: upto.simps [of a b])
  next
    case False
    then have "a \<noteq> e" using Suc.prems by auto
    then have "a + 1 \<le> e" using Suc.prems by simp
    moreover have "n = nat (e - (a + 1))" using Suc.hyps(2) by simp
    ultimately obtain e' where
      e': "List.find P [a + 1..b] = Some e'" "a + 1 \<le> e'" "e' \<le> e" "P e'"
          "\<forall>j. a + 1 \<le> j \<and> j < e' \<longrightarrow> \<not> P j"
      using Suc.hyps(1) [of "a + 1"] Suc.prems by blast
    have "\<forall>j. a \<le> j \<and> j < e' \<longrightarrow> \<not> P j"
    proof (intro allI impI)
      fix j assume "a \<le> j \<and> j < e'"
      then show "\<not> P j" using False e'(5) by (cases "j = a") auto
    qed
    then show ?thesis using e' False ab by (simp add: upto.simps [of a b])
  qed
qed

lemma binade_upper_bound:
  assumes "\<bar>x\<bar> < pow2 (e + 1)" "- 1022 \<le> e" "e \<le> 1023"
  shows "binade x \<le> e"
proof -
  from find_upto_least [of "- 1022" e 1023 "\<lambda>e. \<bar>x\<bar> < pow2 (e + 1)"] assms
  obtain e' where "List.find (\<lambda>e. \<bar>x\<bar> < pow2 (e + 1)) [- 1022..1023] = Some e'" "e' \<le> e"
    by blast
  then show ?thesis by (simp add: binade_def)
qed

lemma binade_eqI:
  assumes "pow2 e \<le> \<bar>x\<bar>" "\<bar>x\<bar> < pow2 (e + 1)" "- 1022 \<le> e" "e \<le> 1023"
  shows "binade x = e"
proof -
  from find_upto_least [of "- 1022" e 1023 "\<lambda>e. \<bar>x\<bar> < pow2 (e + 1)"] assms
  obtain e' where e': "List.find (\<lambda>e. \<bar>x\<bar> < pow2 (e + 1)) [- 1022..1023] = Some e'"
    "e' \<le> e" "\<bar>x\<bar> < pow2 (e' + 1)"
    by blast
  have "e' = e"
  proof (rule ccontr)
    assume "e' \<noteq> e"
    then have "e' + 1 \<le> e" using e'(2) by simp
    then have "pow2 (e' + 1) \<le> pow2 e" by (rule pow2_mono)
    then show False using e'(3) assms(1) by linarith
  qed
  then show ?thesis using e'(1) by (simp add: binade_def)
qed

lemma nearest_even_int: "nearest_even (of_int n) = n"
  by (simp add: nearest_even_def)

lemma binade_upper:
  assumes "\<bar>x * 2 ^ k\<bar> < 2 ^ 53" "k \<le> 1074"
  shows "binade x \<le> 52 - int k"
proof (rule binade_upper_bound)
  have "\<bar>x\<bar> * 2 ^ k < 2 ^ 53" using assms(1) by (simp add: abs_mult)
  then have "\<bar>x\<bar> < 2 ^ 53 / 2 ^ k" by (simp add: pos_less_divide_eq)
  also have "\<dots> = 2 powr (53 - real k)" by (simp add: powr_diff powr_realpow)
  also have "\<dots> = pow2 (52 - int k + 1)" by (simp add: pow2_powr)
  finally show "\<bar>x\<bar> < pow2 (52 - int k + 1)" .
  show "- 1022 \<le> 52 - int k" using assms(2) by simp
  show "52 - int k \<le> 1023" by simp
qed

text \<open>
  A number that is an integer multiple of a power of two, with a multiplier of magnitude
  below \<open>2 ^ 53\<close>, is a double: rounding leaves it as it is.
\<close>

lemma round_double_exact:
  assumes "x * 2 ^ k \<in> \<int>" "\<bar>x * 2 ^ k\<bar> < 2 ^ 53" "k \<le> 1074"
  shows "round_double x = x"
proof (cases "x = 0")
  case True then show ?thesis by (simp add: round_double_def)
next
  case False
  obtain n where n: "x * 2 ^ k = of_int n" using assms(1) by (auto elim: Ints_cases)
  define j where "j = nat (52 - int k - binade x)"
  define ulp where "ulp = pow2 (binade x - 52)"
  have le: "binade x \<le> 52 - int k" using assms(2,3) by (rule binade_upper)
  then have e: "binade x - 52 = - int (k + j)" by (simp add: j_def)
  have ulp: "ulp = 1 / 2 ^ (k + j)"
    unfolding ulp_def e by (cases "k + j = 0") (auto simp: pow2_def nat_add_distrib)
  have "x / ulp = x * 2 ^ k * 2 ^ j" by (simp add: ulp power_add)
  also have "\<dots> = of_int (n * 2 ^ j)" by (simp add: n)
  finally have q: "x / ulp = of_int (n * 2 ^ j)" .
  have "of_int (nearest_even (x / ulp)) * ulp = x / ulp * ulp"
    by (simp only: q nearest_even_int)
  also have "\<dots> = x" by (simp add: ulp)
  finally show ?thesis using False by (simp add: round_double_def Let_def ulp_def)
qed

lemma round_double_int:
  assumes "x \<in> \<int>" "\<bar>x\<bar> < 2 ^ 53"
  shows "round_double x = x"
  using round_double_exact [of x 0] assms by simp

lemma double_sub_int:
  assumes "a - b \<in> \<int>" "\<bar>a - b\<bar> < 2 ^ 53"
  shows "double_sub a b = a - b"
  unfolding double_sub_def using assms by (rule round_double_int)

text \<open>
  The real number \<open>1 - 1 / 2 ^ 60\<close> lies between the doubles \<open>1 - 1 / 2 ^ 53\<close> and \<open>1\<close>, nearer
  to the second.
\<close>

lemma round_double_below_one: "round_double (1 - 1 / 2 ^ 60) = 1"
proof -
  define x :: real where "x = 1 - 1 / 2 ^ 60"
  have b: "binade x = - 1"
    by (rule binade_eqI) (simp_all add: pow2_def x_def)
  have u: "pow2 (binade x - 52) = 1 / 2 ^ 53"
    by (simp add: b pow2_def)
  have q: "x / (1 / 2 ^ 53) = 9007199254740992 - 1 / 128"
    by (simp add: x_def)
  have n: "nearest_even (9007199254740992 - 1 / 128) = 9007199254740992"
  proof -
    have "\<lfloor>9007199254740992 - 1 / 128 :: real\<rfloor> = 9007199254740991"
      by (simp add: floor_eq_iff)
    then show ?thesis by (simp add: nearest_even_def Let_def)
  qed
  have "x \<noteq> 0" by (simp add: x_def)
  then have "round_double x = of_int (nearest_even (x / (1 / 2 ^ 53))) * (1 / 2 ^ 53)"
    by (simp only: round_double_def Let_def u if_False)
  also have "\<dots> = 1" by (simp only: q n) simp
  finally show ?thesis by (simp only: x_def)
qed

lemma double_sub_below_one: "double_sub 1 (1 / 2 ^ 60) = 1"
  by (simp only: double_sub_def round_double_below_one)

subsection \<open>Loops that may throw\<close>

lemma for_each_invariant:
  "\<forall>a \<in> set as. \<forall>s s'. P s \<longrightarrow> body a s = Inr s' \<longrightarrow> P s' \<Longrightarrow>
   P s \<Longrightarrow> for_each body as s = Inr s' \<Longrightarrow> P s'"
proof (induction as arbitrary: s)
  case Nil
  then show ?case by simp
next
  case (Cons a as)
  from Cons.prems(3) obtain s1 where s1: "body a s = Inr s1" "for_each body as s1 = Inr s'"
    by (auto split: sum.splits)
  have p1: "P s1" using Cons.prems(1,2) s1(1) by (meson list.set_intros(1))
  have rest: "\<forall>a \<in> set as. \<forall>s s'. P s \<longrightarrow> body a s = Inr s' \<longrightarrow> P s'"
    using Cons.prems(1) by (meson list.set_intros(2))
  from Cons.IH [OF rest p1 s1(2)] show ?case .
qed

lemma for_each_total:
  "(\<And>a s. a \<in> set as \<Longrightarrow> \<exists>s'. body a s = Inr s') \<Longrightarrow> \<exists>s'. for_each body as s = Inr s'"
proof (induction as arbitrary: s)
  case Nil
  then show ?case by simp
next
  case (Cons a as)
  from Cons.prems [of a s] obtain s1 where "body a s = Inr s1" by auto
  moreover from Cons.IH [of s1] Cons.prems obtain s2 where "for_each body as s1 = Inr s2" by auto
  ultimately show ?case by simp
qed

subsection \<open>Summary\<close>

lemma foldl_summaryStep_fixed:
  "total (foldl summaryStep s is) = total s \<and>
   criticalN (foldl summaryStep s is) = criticalN s \<and>
   highN (foldl summaryStep s is) = highN s \<and>
   mediumN (foldl summaryStep s is) = mediumN s \<and>
   lowN (foldl summaryStep s is) = lowN s"
  by (induction "is" arbitrary: s) (simp_all add: summaryStep_def)

lemma severity_partition:
  "length (filter (\<lambda>i. severity i = critical) is) + length (filter (\<lambda>i. severity i = high) is) +
   length (filter (\<lambda>i. severity i = medium) is) + length (filter (\<lambda>i. severity i = low) is)
   = length is"
proof (induction "is")
  case Nil
  then show ?case by simp
next
  case (Cons i "is")
  then show ?case by (cases "severity i") simp_all
qed

lemma buildSummary_severity_total:
  "total (buildSummary is) = length is \<and>
   criticalN (buildSummary is) + highN (buildSummary is) + mediumN (buildSummary is)
     + lowN (buildSummary is) = length is"
  using severity_partition [of "is"] by (simp add: buildSummary_def foldl_summaryStep_fixed)

lemma buildSummary_empty:
  "total (buildSummary []) = 0 \<and> criticalN (buildSummary []) = 0 \<and> highN (buildSummary []) = 0
   \<and> mediumN (buildSummary []) = 0 \<and> lowN (buildSummary []) = 0 \<and> byViewport (buildSummary []) = []"
  by (simp add: buildSummary_def)

lemma set_own_absent: "map_of obj k = None \<Longrightarrow> set_own k v obj = obj @ [(k, v)]"
  by (induction obj) (auto split: if_splits)

lemma set_own_last: "map_of obj k = None \<Longrightarrow> set_own k v' (obj @ [(k, v)]) = obj @ [(k, v')]"
  by (induction obj) (auto split: if_splits)

lemma sum_counters_snoc:
  "sum_counters (map snd obj) = Some m \<Longrightarrow> sum_counters (map snd (obj @ [(k, Some n)])) = Some (m + n)"
proof (induction obj arbitrary: m)
  case Nil
  then show ?case by simp
next
  case (Cons p obj)
  then show ?case by (cases "snd p") (auto split: option.splits)
qed

lemma plain_set_own:
  "plain obj \<Longrightarrow> k \<notin> set objectPrototypeNames \<Longrightarrow> plain (set_own k (Some (Suc a)) obj)"
  by (induction obj) (auto simp: plain_def)

lemma plain_lookup: "plain obj \<Longrightarrow> map_of obj k = Some v \<Longrightarrow> \<exists>n. v = Some (Suc n)"
  by (induction obj) (auto simp: plain_def split: if_splits)

lemma sum_set_own_old:
  "map_of obj k = Some (Some a) \<Longrightarrow> sum_counters (map snd obj) = Some m \<Longrightarrow>
   sum_counters (map snd (set_own k (Some (Suc a)) obj)) = Some (Suc m)"
proof (induction obj arbitrary: m)
  case Nil
  then show ?case by simp
next
  case (Cons p obj)
  obtain k' v' where p: "p = (k', v')" by (cases p)
  with Cons.prems show ?case
    by (cases v') (auto split: option.splits if_splits dest: Cons.IH)
qed

lemma bumpViewport_plain:
  assumes "plain obj" "k \<notin> set objectPrototypeNames" "sum_counters (map snd obj) = Some m"
  shows "plain (bumpViewport obj k) \<and> sum_counters (map snd (bumpViewport obj k)) = Some (Suc m)"
proof (cases "map_of obj k")
  case None
  from assms(2) have np: "k \<noteq> ''__proto__''" by (auto simp: objectPrototypeNames_def)
  have b: "bumpViewport obj k = obj @ [(k, Some (Suc 0))]"
    using None assms(2) np
    by (simp add: bumpViewport_def readProp_def slot_truthy_def writeProp_def incremented_def
        set_own_absent set_own_last Let_def map_add_def)
  have "plain (obj @ [(k, Some (Suc 0))])" using assms(1,2) by (simp add: plain_def)
  moreover have "sum_counters (map snd (obj @ [(k, Some (Suc 0))])) = Some (Suc m)"
    using sum_counters_snoc [OF assms(3), of k "Suc 0"] by simp
  ultimately show ?thesis by (simp add: b)
next
  case (Some v)
  from plain_lookup [OF assms(1) Some] obtain n where v: "v = Some (Suc n)" by blast
  from assms(2) have np: "k \<noteq> ''__proto__''" by (auto simp: objectPrototypeNames_def)
  have b: "bumpViewport obj k = set_own k (Some (Suc (Suc n))) obj"
    using Some v np
    by (simp add: bumpViewport_def readProp_def slot_truthy_def writeProp_def incremented_def Let_def)
  show ?thesis
    using plain_set_own [OF assms(1,2)] sum_set_own_old [OF _ assms(3), of k "Suc n"] Some v
    by (simp add: b)
qed

lemma foldl_summaryStep_byViewport:
  assumes "plain (byViewport s)" "sum_counters (map snd (byViewport s)) = Some m"
    "\<forall>i \<in> set is. issue_viewport i \<notin> set objectPrototypeNames"
  shows "sum_counters (map snd (byViewport (foldl summaryStep s is))) = Some (m + length is)"
  using assms
proof (induction "is" arbitrary: s m)
  case Nil
  then show ?case by simp
next
  case (Cons i "is")
  have "plain (byViewport (summaryStep s i)) \<and>
        sum_counters (map snd (byViewport (summaryStep s i))) = Some (Suc m)"
    using bumpViewport_plain [of "byViewport s" "issue_viewport i" m] Cons.prems
    by (simp add: summaryStep_def)
  with Cons.IH [of "summaryStep s i" "Suc m"] Cons.prems(3) show ?case by simp
qed

lemma buildSummary_byViewport_plain_names:
  assumes "\<forall>i \<in> set is. issue_viewport i \<notin> set objectPrototypeNames"
  shows "sum_counters (map snd (byViewport (buildSummary is))) = Some (total (buildSummary is))"
  using foldl_summaryStep_byViewport [of _ 0 "is", OF _ _ assms]
  by (simp add: buildSummary_def foldl_summaryStep_fixed plain_def)

text \<open>
  Claim C10. For every issue list the summary has \<open>total\<close> equal to the number of issues
  and to the sum of the four severity counters, the counters of \<open>byViewport\<close> sum to
  \<open>total\<close>, and the empty list gives zeros and an empty \<open>byViewport\<close>. The severity part
  and the empty case hold (\<open>buildSummary_severity_total\<close>, \<open>buildSummary_empty\<close>), and
  the viewport part holds when no viewport name is a property of \<open>Object.prototype\<close>
  (\<open>buildSummary_byViewport_plain_names\<close>). For one issue on a viewport named
  \<open>toString\<close> the only counter of \<open>byViewport\<close> is \<open>NaN\<close>, while \<open>total\<close> is 1.
\<close>

theorem buildSummary_inherited_name:
  "total (buildSummary [sampleIssue medium ''toString'']) = 1 \<and>
   byViewport (buildSummary [sampleIssue medium ''toString'']) = [(''toString'', None)] \<and>
   sum_counters (map snd (byViewport (buildSummary [sampleIssue medium ''toString''])))
     \<noteq> Some (total (buildSummary [sampleIssue medium ''toString'']))"
  by (simp add: buildSummary_def summaryStep_def sampleIssue_def bumpViewport_def readProp_def
      objectPrototypeNames_def slot_truthy_def writeProp_def incremented_def)


subsection \<open>Spacing\<close>

lemma spacingValueStep_total:
  "scale \<noteq> [] \<Longrightarrow> \<exists>s'. spacingValueStep snapshot el scale tv s = Inr s'"
  by (cases scale)
     (auto simp: spacingValueStep_def findNearest_def reduce_def Let_def split: prod.splits)

lemma analyzeSpacing_total_nonempty:
  "spacingScale config \<noteq> [] \<Longrightarrow> \<exists>r. analyzeSpacing snapshots config w = Inr r"
  unfolding analyzeSpacing_def spacingSnapshotStep_def spacingElementStep_def
  by (intro for_each_total spacingValueStep_total)

text \<open>
  Claim C1. Every analyzer returns an issue list and never throws; in particular
  \<open>analyzeSpacing\<close> does not throw when the spacing scale is empty and an element has a
  positive off-scale spacing value. On an empty scale and a margin of \<open>5px\<close>,
  \<open>findNearest\<close> reduces the empty array without an initial value and
  \<open>analyzeSpacing\<close> ends with a \<open>TypeError\<close>. With a non-empty scale it always returns
  (\<open>analyzeSpacing_total_nonempty\<close>).
\<close>

theorem analyzeSpacing_empty_scale_throws:
  "analyzeSpacing [mobileSnapshot [styled ''.test'' [''margin'' \<mapsto> ''5px'']]]
     (defaultConfig\<lparr>spacingScale := []\<rparr>) startWorld = Inl TypeError"
  by (simp add: analyzeSpacing_def spacingSnapshotStep_def spacingElementStep_def
      spacingValueStep_def mobileSnapshot_def styled_def defaultConfig_def allSpacingValues_def
      parseSpacing_def parseFloat_def strip_sign_def is_digit_def is_space_def
      exponent_factor_def digits_val_def digit_val_def isOnScale_def findNearest_def
      reduce_def or_else_def round_double_int)


lemma isOnScale_iff: "isOnScale v scale \<longleftrightarrow> (\<exists>s \<in> set scale. \<bar>double_sub v s\<bar> < 1)"
  by (simp add: isOnScale_def list_ex_iff)

lemma spacingValueStep_flagged:
  assumes "\<not> isOnScale v scale" "v > 0"
    "spacingValueStep snapshot el scale (ty, v) (issues, w) = Inr s'"
  shows "\<exists>nearest ident msg w2.
           s' = (issues @ [spacingIssue snapshot el scale ty v nearest ident msg], w2)"
proof (cases "findNearest v scale")
  case (Inl e)
  with assms show ?thesis by (simp add: spacingValueStep_def)
next
  case (Inr nearest)
  with assms have "s' = (issues @ [spacingIssue snapshot el scale ty v nearest
       (fst (generateId ''SPC'' (counter w)))
       (fst (pick_message (spacingRoasts snapshot ty v nearest)
              (w\<lparr>counter := snd (generateId ''SPC'' (counter w))\<rparr>)))],
     snd (pick_message (spacingRoasts snapshot ty v nearest)
              (w\<lparr>counter := snd (generateId ''SPC'' (counter w))\<rparr>)))"
    by (simp add: spacingValueStep_def Let_def case_prod_beta)
  then show ?thesis by blast
qed

lemma details_spacingIssue:
  "map_of (details (spacingIssue snapshot el scale ty v nearest ident msg)) ''value'' = Some (JNum v)"
  by (simp add: spacingIssue_def)

lemma spacingIssue_offScale:
  assumes "\<forall>x \<in> set scale. \<not> \<bar>double_sub v x\<bar> < 1"
  shows "offScale scale (spacingIssue snapshot el scale ty v nearest ident msg)"
  unfolding offScale_def details_spacingIssue using assms by simp

lemma spacingValueStep_unflagged:
  assumes "\<not> (\<not> isOnScale v scale \<and> v > 0)"
  shows "spacingValueStep snapshot el scale (ty, v) (issues, w) = Inr (issues, w)"
  using assms by (auto simp: spacingValueStep_def)

lemma spacingValueStep_offScale:
  assumes "\<forall>i \<in> set (fst s). offScale scale i" "spacingValueStep snapshot el scale tv s = Inr s'"
  shows "\<forall>i \<in> set (fst s'). offScale scale i"
proof -
  obtain ty v where tv: "tv = (ty, v)" by (cases tv)
  obtain issues w where s: "s = (issues, w)" by (cases s)
  show ?thesis
  proof (cases "\<not> isOnScale v scale \<and> v > 0")
    case True
    then have off: "\<forall>x \<in> set scale. \<not> \<bar>double_sub v x\<bar> < 1" by (simp add: isOnScale_iff)
    from spacingValueStep_flagged [of v scale snapshot el ty issues w s'] assms(2) True
    obtain nearest ident msg w2 where
      s': "s' = (issues @ [spacingIssue snapshot el scale ty v nearest ident msg], w2)"
      unfolding tv s by blast
    have "offScale scale (spacingIssue snapshot el scale ty v nearest ident msg)"
      using off by (rule spacingIssue_offScale)
    then show ?thesis using assms(1) unfolding s s' by simp
  next
    case False
    from spacingValueStep_unflagged [OF False, of snapshot el ty issues w] assms(2)
    have "s' = s" unfolding tv s by simp
    with assms(1) show ?thesis by simp
  qed
qed

lemma analyzeSpacing_offScale:
  assumes "analyzeSpacing snapshots config w = Inr (issues, w')" "i \<in> set issues"
  shows "offScale (spacingScale config) i"
proof -
  let ?P = "\<lambda>s. \<forall>i \<in> set (fst s). offScale (spacingScale config) i"
  have v: "\<And>snapshot el tv s s'. ?P s \<Longrightarrow>
      spacingValueStep snapshot el (spacingScale config) tv s = Inr s' \<Longrightarrow> ?P s'"
    using spacingValueStep_offScale by blast
  have e: "?P s'" if a: "?P s" and b: "spacingElementStep snapshot (spacingScale config) el s = Inr s'"
    for snapshot el s s'
  proof (rule for_each_invariant [where P = ?P, OF _ a b [unfolded spacingElementStep_def]])
    show "\<forall>tv \<in> set (allSpacingValues el). \<forall>s s'. ?P s \<longrightarrow>
            spacingValueStep snapshot el (spacingScale config) tv s = Inr s' \<longrightarrow> ?P s'"
      using v by simp
  qed
  have sn: "?P s'" if a: "?P s" and b: "spacingSnapshotStep (spacingScale config) snapshot s = Inr s'"
    for snapshot s s'
  proof (rule for_each_invariant [where P = ?P, OF _ a b [unfolded spacingSnapshotStep_def]])
    show "\<forall>el \<in> set (snapshot_dom snapshot). \<forall>s s'. ?P s \<longrightarrow>
            spacingElementStep snapshot (spacingScale config) el s = Inr s' \<longrightarrow> ?P s'"
      using e by simp
  qed
  have "?P (issues, w')"
  proof (rule for_each_invariant [where P = ?P, OF _ _ assms(1) [unfolded analyzeSpacing_def]])
    show "\<forall>snapshot \<in> set snapshots. \<forall>s s'. ?P s \<longrightarrow>
            spacingSnapshotStep (spacingScale config) snapshot s = Inr s' \<longrightarrow> ?P s'"
      using sn by simp
    show "?P ([], w)" by simp
  qed
  with assms(2) show ?thesis by simp
qed

lemmas spacing_run =
  analyzeSpacing_def spacingSnapshotStep_def spacingElementStep_def spacingValueStep_def
  mobileSnapshot_def styled_def defaultConfig_def allSpacingValues_def parseSpacing_def
  parseFloat_def strip_sign_def is_digit_def is_space_def exponent_factor_def digits_val_def
  digit_val_def isOnScale_def findNearest_def reduce_def or_else_def generateId_def
  pick_message_def Math_random_def startWorld_def show_nat_def padStart4_def
  spacingRoasts_def Let_def eval_nat_numeral round_double_int double_sub_int

text \<open>
  Claim C8. The spacing scale is a non-flagging criterion: for every spacing value \<open>v\<close>
  parsed from an element's margin or padding such that some entry \<open>s\<close> of the scale
  satisfies \<open>|v - s| < 1\<close>, \<open>analyzeSpacing\<close> emits no issue for that value.

  The code compares \<open>Math.abs(value - scaleValue)\<close> with 1, and the difference of two
  doubles is rounded. As the code computes it: a value whose computed difference from
  some entry of the scale is below 1 in absolute value is not flagged, the loop body of
  \<open>analyzeSpacing\<close> leaves the issue list and the state as they are; every issue that
  \<open>analyzeSpacing\<close> returns reports a value whose computed difference from every entry
  is 1 or more in absolute value; and the computed difference is the exact one whenever
  the exact one is a multiple of a power of two with a multiplier below \<open>2 ^ 53\<close>, which
  covers integer and half-integer pixel values on an integer scale.
\<close>

theorem spacing_scale_non_flagging_rounded:
  "(s \<in> set (spacingScale config) \<and> \<bar>double_sub v s\<bar> < 1 \<longrightarrow>
      spacingValueStep snapshot el (spacingScale config) (ty, v) (issues, w) = Inr (issues, w))
   \<and> (analyzeSpacing snapshots config w0 = Inr (found, w1) \<and> i \<in> set found \<longrightarrow>
        (\<exists>u. map_of (details i) ''value'' = Some (JNum u)
             \<and> (\<forall>t \<in> set (spacingScale config). \<not> \<bar>double_sub u t\<bar> < 1)))
   \<and> ((v - s) * 2 ^ k \<in> \<int> \<and> \<bar>(v - s) * 2 ^ k\<bar> < 2 ^ 53 \<and> k \<le> 1074 \<longrightarrow>
        double_sub v s = v - s)"
proof (intro conjI impI)
  assume "s \<in> set (spacingScale config) \<and> \<bar>double_sub v s\<bar> < 1"
  then have "isOnScale v (spacingScale config)" by (auto simp: isOnScale_iff)
  then show "spacingValueStep snapshot el (spacingScale config) (ty, v) (issues, w) = Inr (issues, w)"
    by (simp add: spacingValueStep_def)
next
  assume "analyzeSpacing snapshots config w0 = Inr (found, w1) \<and> i \<in> set found"
  then have "offScale (spacingScale config) i" using analyzeSpacing_offScale by blast
  then show "\<exists>u. map_of (details i) ''value'' = Some (JNum u)
             \<and> (\<forall>t \<in> set (spacingScale config). \<not> \<bar>double_sub u t\<bar> < 1)"
    by (simp add: offScale_def)
next
  assume "(v - s) * 2 ^ k \<in> \<int> \<and> \<bar>(v - s) * 2 ^ k\<bar> < 2 ^ 53 \<and> k \<le> 1074"
  then show "double_sub v s = v - s"
    unfolding double_sub_def by (intro round_double_exact [of "v - s" k]) simp_all
qed

lemma analyzeSpacing_sample:
  "\<exists>w1. analyzeSpacing spacingSample defaultConfig startWorld =
     Inr ([spacingIssue (hd spacingSample) (hd (snapshot_dom (hd spacingSample)))
            (spacingScale defaultConfig) ''margin'' 15 16 ''SPC-0001''
            (Some (spacingRoasts (hd spacingSample) ''margin'' 15 16 ! 0))], w1)"
  by (simp add: spacingSample_def spacing_run)

theorem spacing_scale_non_flagging_rounded_witness:
  "double_sub (33 / 2) 16 = 1 / 2
   \<and> spacingValueStep (hd spacingSample) (hd (snapshot_dom (hd spacingSample)))
       (spacingScale defaultConfig) (''margin'', 33 / 2) ([], startWorld) = Inr ([], startWorld)
   \<and> (\<exists>found w1. analyzeSpacing spacingSample defaultConfig startWorld = Inr (found, w1)
         \<and> found \<noteq> []
         \<and> (\<forall>i \<in> set found. \<exists>u. map_of (details i) ''value'' = Some (JNum u)
               \<and> (\<forall>t \<in> set (spacingScale defaultConfig). \<not> \<bar>double_sub u t\<bar> < 1)))"
proof -
  obtain w1 i where run: "analyzeSpacing spacingSample defaultConfig startWorld = Inr ([i], w1)"
    using analyzeSpacing_sample by blast
  note inst = spacing_scale_non_flagging_rounded [of 16 defaultConfig "33 / 2"
      "hd spacingSample" "hd (snapshot_dom (hd spacingSample))" "''margin''" "[]" startWorld
      spacingSample startWorld "[i]" w1 i 1]
  have half: "double_sub (33 / 2) 16 = 1 / 2" using inst by simp
  have "(16::real) \<in> set (spacingScale defaultConfig) \<and> \<bar>double_sub (33 / 2) 16\<bar> < 1"
    by (simp add: defaultConfig_def half)
  with inst run half show ?thesis by simp
qed

text \<open>
  Claim C8, as stated, measures the distance \<open>|v - s|\<close> exactly. In \<open>onePixelMargin\<close> the
  element has a margin of \<open>1px\<close>, and the scale of \<open>tinyScaleConfig\<close> has the one entry
  \<open>1 / 2 ^ 60\<close>. The value 1 is less than 1 away from that entry, but the difference
  \<open>1 - 1 / 2 ^ 60\<close> is not a double and rounds to 1, so \<open>isOnScale\<close> answers no and
  \<open>analyzeSpacing\<close> reports the value as \<open>SPC-0001\<close>.
\<close>

theorem spacing_flags_value_within_one_of_scale:
  "parseSpacing ''1px'' = [1]
   \<and> (1 / 2 ^ 60 :: real) \<in> set (spacingScale tinyScaleConfig)
   \<and> \<bar>1 - 1 / 2 ^ 60\<bar> < (1 :: real)
   \<and> double_sub 1 (1 / 2 ^ 60) = 1
   \<and> (\<exists>w1. analyzeSpacing onePixelMargin tinyScaleConfig startWorld =
         Inr ([spacingIssue (hd onePixelMargin) (hd (snapshot_dom (hd onePixelMargin)))
                (spacingScale tinyScaleConfig) ''margin'' 1 (1 / 2 ^ 60) ''SPC-0001''
                (Some (spacingRoasts (hd onePixelMargin) ''margin'' 1 (1 / 2 ^ 60) ! 0))], w1))"
proof -
  have d: "double_sub 1 (1 / 1152921504606846976) = 1"
    using double_sub_below_one by simp
  have "parseSpacing ''1px'' = [1]"
    by (simp add: spacing_run)
  moreover have "\<exists>w1. analyzeSpacing onePixelMargin tinyScaleConfig startWorld =
         Inr ([spacingIssue (hd onePixelMargin) (hd (snapshot_dom (hd onePixelMargin)))
                (spacingScale tinyScaleConfig) ''margin'' 1 (1 / 2 ^ 60) ''SPC-0001''
                (Some (spacingRoasts (hd onePixelMargin) ''margin'' 1 (1 / 2 ^ 60) ! 0))], w1)"
    by (simp add: onePixelMargin_def tinyScaleConfig_def spacing_run d)
  ultimately show ?thesis
    by (simp add: tinyScaleConfig_def defaultConfig_def d)
qed

subsection \<open>Accessibility and contrast\<close>

lemmas js_parse =
  parseFloat_def parseInt_def strip_sign_def is_digit_def is_space_def exponent_factor_def
  round_double_int
  digits_val_def digit_val_def is_hex_digit_def hex_digit_val_def hex_val_def parseInt16_def
  starts_with_def ends_with_def or_else_def truthy_def

lemma linearChannel_nonneg: "0 \<le> linearChannel n"
  by (simp add: linearChannel_def Let_def)

lemma getLuminance_nonneg: "0 \<le> getLuminance c"
  unfolding getLuminance_def
  by (intro add_nonneg_nonneg mult_nonneg_nonneg linearChannel_nonneg) simp_all

lemma calculateContrast_same: "calculateContrast c c = 1"
  using getLuminance_nonneg [of c] by (simp add: calculateContrast_def Let_def)

lemma linearChannel_0: "linearChannel 0 = 0"
  by (simp add: linearChannel_def)

lemma linearChannel_255: "linearChannel 255 = 1"
  by (simp add: linearChannel_def)

lemma getLuminance_black: "getLuminance black = 0"
  by (simp add: getLuminance_def black_def linearChannel_0)

lemma getLuminance_white: "getLuminance white = 1"
  by (simp add: getLuminance_def white_def linearChannel_255)

lemma calculateContrast_black_white: "calculateContrast black white = 21"
  by (simp add: calculateContrast_def getLuminance_black getLuminance_white)

lemma contrastCheck_flags:
  assumes "calculateContrast fg bg < requiredRatioFor config el"
  shows "\<exists>ident msg w2.
           contrastCheck snapshot config el fg bg (issues, w) =
             (issues @ [contrastIssue snapshot el bg (calculateContrast fg bg)
                          (requiredRatioFor config el) ident msg], w2)"
proof -
  have "contrastCheck snapshot config el fg bg (issues, w) =
      (issues @ [contrastIssue snapshot el bg (calculateContrast fg bg)
                   (requiredRatioFor config el) (fst (generateId ''A11Y'' (counter w)))
                   (fst (pick_message
                          (contrastRoasts snapshot (calculateContrast fg bg)
                             (requiredRatioFor config el))
                          (w\<lparr>counter := snd (generateId ''A11Y'' (counter w))\<rparr>)))],
       snd (pick_message
              (contrastRoasts snapshot (calculateContrast fg bg) (requiredRatioFor config el))
              (w\<lparr>counter := snd (generateId ''A11Y'' (counter w))\<rparr>)))"
    using assms by (simp add: contrastCheck_def Let_def case_prod_beta)
  then show ?thesis by blast
qed

lemma contrastCheck_passes:
  assumes "\<not> calculateContrast fg bg < requiredRatioFor config el"
  shows "contrastCheck snapshot config el fg bg (issues, w) = (issues, w)"
  using assms by (simp add: contrastCheck_def Let_def)

text \<open>
  Claim C7. The contrast of a color with itself is exactly 1, the contrast of black and
  white is exactly 21, and identical foreground and background fail every required ratio
  greater than 1: the ratio is below the requirement, and the check adds an issue.
\<close>

theorem contrast_exact_values:
  "calculateContrast c c = 1 \<and> calculateContrast black white = 21
   \<and> (1 < required \<longrightarrow> calculateContrast c c < required)
   \<and> (1 < requiredRatioFor config el \<longrightarrow>
        length (fst (contrastCheck snapshot config el c c (issues, w))) = Suc (length issues))"
proof -
  have "length (fst (contrastCheck snapshot config el c c (issues, w))) = Suc (length issues)"
    if "1 < requiredRatioFor config el"
    using contrastCheck_flags [of c c config el snapshot issues w] that
    by (auto simp: calculateContrast_same)
  then show ?thesis by (simp add: calculateContrast_same calculateContrast_black_white)
qed

lemma requiredRatioFor_sample: "requiredRatioFor defaultConfig whiteOnTransparent = 7"
  by (simp add: requiredRatioFor_def whiteOnTransparent_def styled_def defaultConfig_def js_parse)

theorem contrast_exact_values_witness:
  "(1::real) < 9 / 2 \<and> calculateContrast white white < 9 / 2
   \<and> 1 < requiredRatioFor defaultConfig whiteOnTransparent
   \<and> length (fst (contrastCheck (mobileSnapshot [whiteOnTransparent]) defaultConfig
                    whiteOnTransparent white white ([], startWorld))) = Suc 0"
  using contrast_exact_values [of white "9 / 2" defaultConfig whiteOnTransparent
      "mobileSnapshot [whiteOnTransparent]" "[]" startWorld]
  by (simp add: requiredRatioFor_sample)












subsection \<open>Fixed widths on the mobile viewport\<close>








subsection \<open>Alignment clusters\<close>

lemma sorted_insert_sorted:
  "sorted (map key xs) \<Longrightarrow> sorted (map key (insert_sorted (\<lambda>a b. key a - key b) a xs))"
proof (induction xs)
  case Nil
  then show ?case by simp
next
  case (Cons b bs)
  have s: "set (insert_sorted (\<lambda>a b. key a - key b) a bs) \<subseteq> insert a (set bs)"
    by (induction bs) auto
  show ?case
  proof (cases "key a - key b < 0")
    case True
    with Cons.prems show ?thesis by force
  next
    case False
    with Cons s show ?thesis by (auto simp: subset_iff)
  qed
qed

lemma sorted_js_sort_aux:
  "sorted (map key acc) \<Longrightarrow>
   sorted (map key (foldl (\<lambda>acc a. insert_sorted (\<lambda>a b. key a - key b) a acc) acc xs))"
  by (induction xs arbitrary: acc) (simp_all add: sorted_insert_sorted)

lemma sorted_js_sort: "sorted (map key (js_sort (\<lambda>a b. key a - key b) xs))"
  unfolding js_sort_def by (rule sorted_js_sort_aux) simp

lemma foldl_max_le: "p \<le> u \<Longrightarrow> \<forall>q \<in> set ps. q \<le> u \<Longrightarrow> foldl max p ps \<le> (u::real)"
  by (induction ps arbitrary: p) simp_all

lemma foldl_min_ge: "l \<le> p \<Longrightarrow> \<forall>q \<in> set ps. l \<le> q \<Longrightarrow> (l::real) \<le> foldl min p ps"
  by (induction ps arbitrary: p) simp_all

lemma bounded_spread:
  assumes "bounded_within key tolerance row" "row \<noteq> []"
  shows "spread (map key row) \<le> tolerance"
proof -
  from assms(2) obtain e es where row: "row = e # es" by (cases row) auto
  from assms(1) obtain c where c: "\<forall>e \<in> set row. c \<le> key e \<and> key e \<le> c + tolerance"
    by (auto simp: bounded_within_def)
  have "foldl max (key e) (map key es) \<le> c + tolerance"
    using c row by (intro foldl_max_le) auto
  moreover have "c \<le> foldl min (key e) (map key es)"
    using c row by (intro foldl_min_ge) auto
  ultimately show ?thesis by (simp add: spread_def row)
qed

lemma grouping_inv_closed:
  assumes "grouping_inv key tolerance st rest" "length (currentRow st) > 1"
  shows "bounded_within key tolerance (currentRow st)"
proof (cases "currentY st")
  case None
  with assms show ?thesis by (simp add: grouping_inv_def)
next
  case (Some cy)
  with assms have "\<forall>e \<in> set (currentRow st). cy \<le> key e \<and> key e \<le> cy + tolerance"
    by (auto simp: grouping_inv_def)
  then show ?thesis unfolding bounded_within_def by blast
qed

lemma groupStep_inv:
  assumes "grouping_inv key tolerance st (el # rest)" "sorted (map key (el # rest))"
  shows "grouping_inv key tolerance (groupStep key tolerance st el) rest"
proof (cases "rect_width (rect el) = 0 \<or> rect_height (rect el) = 0")
  case True
  then have "groupStep key tolerance st el = st" by (simp add: groupStep_def)
  with assms(1) show ?thesis by (auto simp: grouping_inv_def split: option.splits)
next
  case visible: False
  show ?thesis
  proof (cases "case currentY st of None \<Rightarrow> False | Some cy \<Rightarrow> \<bar>key el - cy\<bar> \<le> tolerance")
    case True
    then obtain cy where cy: "currentY st = Some cy" "\<bar>key el - cy\<bar> \<le> tolerance"
      by (auto split: option.splits)
    have step: "groupStep key tolerance st el = st\<lparr>currentRow := currentRow st @ [el]\<rparr>"
      using visible True by (simp add: groupStep_def)
    from assms(1) cy(1) have "cy \<le> key el" by (simp add: grouping_inv_def)
    with cy(2) have "key el \<le> cy + tolerance" "0 \<le> tolerance" by linarith+
    with assms(1) cy(1) \<open>cy \<le> key el\<close> show ?thesis
      unfolding step by (auto simp: grouping_inv_def)
  next
    case False
    have step: "groupStep key tolerance st el =
        \<lparr> rows = (if length (currentRow st) > 1 then rows st @ [currentRow st] else rows st),
          currentRow = [el], currentY = Some (key el) \<rparr>"
      using visible False by (simp add: groupStep_def)
    have rows: "\<forall>row \<in> set (if length (currentRow st) > 1 then rows st @ [currentRow st]
                  else rows st). row \<noteq> [] \<and> bounded_within key tolerance row"
      using assms(1) grouping_inv_closed [OF assms(1)]
      by (auto simp: grouping_inv_def)
    have "\<forall>e \<in> set rest. key el \<le> key e" using assms(2) by simp
    with rows show ?thesis unfolding step by (simp add: grouping_inv_def)
  qed
qed

lemma foldl_groupStep_inv:
  "grouping_inv key tolerance st xs \<Longrightarrow> sorted (map key xs) \<Longrightarrow>
   grouping_inv key tolerance (foldl (groupStep key tolerance) st xs) []"
proof (induction xs arbitrary: st)
  case Nil
  then show ?case by simp
next
  case (Cons el xs)
  from groupStep_inv [OF Cons.prems] have "grouping_inv key tolerance (groupStep key tolerance st el) xs" .
  moreover from Cons.prems(2) have "sorted (map key xs)" by simp
  ultimately show ?case using Cons.IH by simp
qed

lemma groupElementsBy_bounded:
  assumes "row \<in> set (groupElementsBy key elements tolerance)"
  shows "row \<noteq> [] \<and> bounded_within key tolerance row"
proof -
  let ?sorted = "js_sort (\<lambda>a b. key a - key b) elements"
  let ?st = "foldl (groupStep key tolerance) \<lparr> rows = [], currentRow = [], currentY = None \<rparr> ?sorted"
  have "grouping_inv key tolerance \<lparr> rows = [], currentRow = [], currentY = None \<rparr> ?sorted"
    by (simp add: grouping_inv_def)
  then have inv: "grouping_inv key tolerance ?st []"
    by (rule foldl_groupStep_inv) (rule sorted_js_sort)
  show ?thesis
  proof (cases "length (currentRow ?st) > 1")
    case True
    with assms have "row \<in> set (rows ?st) \<or> row = currentRow ?st"
      by (auto simp: groupElementsBy_def Let_def)
    with inv grouping_inv_closed [OF inv True] True show ?thesis
      by (auto simp: grouping_inv_def)
  next
    case False
    with assms have "row \<in> set (rows ?st)" by (auto simp: groupElementsBy_def Let_def)
    with inv show ?thesis by (auto simp: grouping_inv_def)
  qed
qed

lemma alignmentRowStep_bounded:
  assumes "row \<noteq> []" "bounded_within key tolerance row"
  shows "alignmentRowStep key mk snapshot tolerance row s = Inr s"
proof -
  from assms(1) obtain e es where row: "row = e # es" by (cases row) auto
  from bounded_spread [OF assms(2,1)] have "\<not> foldl max (key e) (map key es) - foldl min (key e) (map key es) > tolerance"
    by (simp add: spread_def row)
  then show ?thesis by (simp add: alignmentRowStep_def row Let_def)
qed

lemma for_each_noop:
  "\<forall>a \<in> set as. body a s = Inr s \<Longrightarrow> for_each body as s = Inr s"
  by (induction as) simp_all

text \<open>
  Claim C2. Every cluster that the row clustering (and the column clustering) produces
  has a spread, largest coordinate minus smallest, of at most the tolerance; so the
  branch for a spread above the tolerance is never taken, and for every snapshot,
  tolerance and counter the row and the column alignment check return no issue.
\<close>

theorem fixed_anchor_clusters_within_tolerance:
  "(\<forall>row \<in> set (groupElementsByRow elements tolerance). spread (map rectTop row) \<le> tolerance)
   \<and> (\<forall>column \<in> set (groupElementsByColumn elements tolerance).
         spread (map rectLeft column) \<le> tolerance)
   \<and> checkHorizontalAlignment snapshot tolerance c = Inr ([], c)
   \<and> checkVerticalAlignment snapshot tolerance c = Inr ([], c)"
proof (intro conjI ballI)
  fix row assume "row \<in> set (groupElementsByRow elements tolerance)"
  then have "row \<noteq> [] \<and> bounded_within rectTop tolerance row"
    using groupElementsBy_bounded [of row rectTop elements tolerance]
    by (simp add: groupElementsByRow_def)
  then show "spread (map rectTop row) \<le> tolerance"
    using bounded_spread [of rectTop tolerance row] by blast
next
  fix column assume "column \<in> set (groupElementsByColumn elements tolerance)"
  then have "column \<noteq> [] \<and> bounded_within rectLeft tolerance column"
    using groupElementsBy_bounded [of column rectLeft elements tolerance]
    by (simp add: groupElementsByColumn_def)
  then show "spread (map rectLeft column) \<le> tolerance"
    using bounded_spread [of rectLeft tolerance column] by blast
next
  show "checkHorizontalAlignment snapshot tolerance c = Inr ([], c)"
    unfolding checkHorizontalAlignment_def groupElementsByRow_def
    by (rule for_each_noop) (simp add: groupElementsBy_bounded alignmentRowStep_bounded)
next
  show "checkVerticalAlignment snapshot tolerance c = Inr ([], c)"
    unfolding checkVerticalAlignment_def groupElementsByColumn_def
    by (rule for_each_noop) (simp add: groupElementsBy_bounded alignmentRowStep_bounded)
qed

text \<open>
  The check itself does flag a row whose spread exceeds the tolerance when it is handed
  one; no such row comes out of the clustering.
\<close>

lemma alignmentRowStep_flags_spread_row:
  "map_sum id (map (\<lambda>i. (issue_id i, element i, map_of (details i) ''misalignment'',
                              map_of (details i) ''baseline'')) \<circ> fst)
     (alignmentRowStep rectTop horizontalIssue (snapshotAt ''desktop'' 1440 []) 4
        [boxAt ''.a'' 0 100, boxAt ''.b'' 250 100, boxAt ''.c'' 500 122] ([], 0))
   = Inr [(''ALN-0001'', ''.c'', Some (JNum 22), Some (JNum 100))]"
  by (simp add: alignmentRowStep_def rectTop_def boxAt_def countPositions_def reduce_def
      generateId_def show_nat_def padStart4_def horizontalIssue_def snapshotAt_def
      Math_round_def Let_def eval_nat_numeral)

lemmas grouping_eval =
  groupElementsByRow_def groupElementsByColumn_def groupElementsBy_def js_sort_def
  groupStep_def rectTop_def rectLeft_def threeItems_def boxAt_def Let_def

lemma rows_threeItems: "groupElementsByRow threeItems 20 = [take 2 threeItems]"
  by (simp add: grouping_eval)

lemma columns_threeItems: "groupElementsByColumn threeItems 300 = [take 2 threeItems]"
  by (simp add: grouping_eval)

theorem fixed_anchor_clusters_within_tolerance_witness:
  "groupElementsByRow threeItems 20 = [take 2 threeItems]
   \<and> spread (map rectTop (take 2 threeItems)) \<le> 20
   \<and> groupElementsByColumn threeItems 300 = [take 2 threeItems]
   \<and> spread (map rectLeft (take 2 threeItems)) \<le> 300
   \<and> checkHorizontalAlignment (snapshotAt ''desktop'' 1440 threeItems) 20 0 = Inr ([], 0)
   \<and> checkVerticalAlignment (snapshotAt ''desktop'' 1440 threeItems) 300 0 = Inr ([], 0)"
  using
    fixed_anchor_clusters_within_tolerance [of threeItems 20
      "snapshotAt ''desktop'' 1440 threeItems" 0]
    fixed_anchor_clusters_within_tolerance [of threeItems 300
      "snapshotAt ''desktop'' 1440 threeItems" 0]
  by (simp add: rows_threeItems columns_threeItems)

subsection \<open>Grid gaps\<close>

text \<open>
  The keys of the two gap maps are distinct, so the size of a map is the number of
  distinct rounded gaps; a container with four or more children and more than three of
  them on an axis gets exactly one issue, of medium severity.
\<close>

lemma keys_bump_count:
  "map fst (bump_count k m) = (if k \<in> set (map fst m) then map fst m else map fst m @ [k])"
  by (induction m) (force split: if_splits)+

lemma distinct_bump_count: "distinct (map fst m) \<Longrightarrow> distinct (map fst (bump_count k m))"
  by (simp add: keys_bump_count)

lemma distinct_gapStep:
  assumes "distinct (map fst (fst maps))" "distinct (map fst (snd maps))"
  shows "distinct (map fst (fst (gapStep maps pair))) \<and> distinct (map fst (snd (gapStep maps pair)))"
  using assms by (simp add: gapStep_def Let_def case_prod_beta distinct_bump_count)

lemma distinct_calculateGaps:
  "distinct (map fst (fst (calculateGaps elements))) \<and>
   distinct (map fst (snd (calculateGaps elements)))"
proof -
  have "distinct (map fst (fst maps)) \<and> distinct (map fst (snd maps)) \<Longrightarrow>
        distinct (map fst (fst (foldl gapStep maps ps))) \<and>
        distinct (map fst (snd (foldl gapStep maps ps)))" for maps ps
  proof (induction ps arbitrary: maps)
    case Nil
    then show ?case by simp
  next
    case (Cons p ps)
    from distinct_gapStep [of maps p] Cons.prems Cons.IH [of "gapStep maps p"]
    show ?case by simp
  qed
  from this [of "([], [])"] show ?thesis by (simp add: calculateGaps_def Let_def)
qed

lemma gridContainerStep_flags:
  assumes "length (children container) \<ge> 4"
    "length (fst (calculateGaps (children container))) > 3
     \<or> length (snd (calculateGaps (children container))) > 3"
  shows "gridContainerStep snapshot (issues, c) container =
           (issues @ [gridIssue snapshot container (calculateGaps (children container))
                        (fst (generateId ''ALN'' c))], snd (generateId ''ALN'' c))
         \<and> severity (gridIssue snapshot container (calculateGaps (children container))
                        (fst (generateId ''ALN'' c))) = medium"
  using assms by (auto simp: gridContainerStep_def gridIssue_def Let_def case_prod_beta)

lemma calculateGaps_unevenGrid:
  "calculateGaps (children unevenGrid) = ([(10, 1), (20, 1), (30, 1), (40, 1)], [])"
  by (simp add: calculateGaps_def unevenGrid_def cellAt_def js_sort_def gridOrder_def
      gapStep_def rectTop_def rectLeft_def Math_round_def Let_def)

text \<open>
  Claim C3. For a container with at least four children and more than three distinct
  rounded gaps on an axis, one medium issue is emitted whose suggested gap is the average
  of the gap values on that axis. For \<open>unevenGrid\<close> the horizontal gaps are 10, 20, 30 and
  40, each occurring once, and there is no vertical gap. One medium issue is emitted
  (in general: \<open>gridContainerStep_flags\<close>); its
  suggested horizontal gap is 1, the average of the four counts, not 25, and its suggested
  vertical gap is \<open>NaN\<close>.
\<close>

theorem grid_suggestion_averages_counts:
  "calculateGaps (children unevenGrid) = ([(10, 1), (20, 1), (30, 1), (40, 1)], [])
   \<and> map (\<lambda>i. (severity i, map_of (details i) ''suggestedHorizontalGap'',
                 map_of (details i) ''suggestedVerticalGap''))
         (fst (checkGridAlignment (snapshotAt ''desktop'' 1440 [unevenGrid]) 4 0))
       = [(medium, Some (JNum 1), Some JNaN)]"
proof -
  have c: "length (children unevenGrid) = 5" by (simp add: unevenGrid_def)
  show ?thesis
    by (simp add: calculateGaps_unevenGrid)
       (simp add: checkGridAlignment_def snapshotAt_def gridContainerStep_def c
         calculateGaps_unevenGrid gridIssue_def valuesAverage_def rounded_json_def
         Math_round_def generateId_def Let_def)
qed

subsection \<open>Near-duplicate colors\<close>

text \<open>The keys of the table of used colors are distinct.\<close>

lemma keys_record_use: "map fst (record_use color sel used) =
    (if color \<in> set (map fst used) then map fst used else map fst used @ [color])"
  by (induction used) (force split: if_splits)+

lemma distinct_record_use:
  "distinct (map fst used) \<Longrightarrow> distinct (map fst (record_use color sel used))"
  by (simp add: keys_record_use)

lemma distinct_collectElement:
  "distinct (map fst used) \<Longrightarrow> distinct (map fst (collectElement used el))"
proof -
  have "distinct (map fst used) \<Longrightarrow>
        distinct (map fst (foldl (\<lambda>used color. case normalizeColor color of None \<Rightarrow> used
              | Some normalized \<Rightarrow> record_use normalized sel used) used cs))" for cs sel
    by (induction cs arbitrary: used) (auto simp: distinct_record_use split: option.splits)
  then show "distinct (map fst used) \<Longrightarrow> distinct (map fst (collectElement used el))"
    by (simp add: collectElement_def)
qed

lemma distinct_foldl_collectElement:
  "distinct (map fst used) \<Longrightarrow> distinct (map fst (foldl collectElement used els))"
  by (induction els arbitrary: used) (simp_all add: distinct_collectElement)

lemma distinct_collectColors: "distinct (map fst (collectColors snapshots))"
proof -
  have "distinct (map fst used) \<Longrightarrow>
        distinct (map fst (foldl (\<lambda>used snapshot. foldl collectElement used (snapshot_dom snapshot))
           used snaps))" for used snaps
    by (induction snaps arbitrary: used) (simp_all add: distinct_foldl_collectElement)
  from this [of "[]" snapshots] show ?thesis by (simp add: collectColors_def)
qed

text \<open>The key of a pair determines the pair, for colors without a vertical bar.\<close>

lemma bar_split:
  assumes "noBar a" "noBar c" "a @ CHR ''|'' # b = c @ CHR ''|'' # d"
  shows "a = c \<and> b = d"
proof -
  have t: "CHR ''|'' \<notin> set u \<Longrightarrow> takeWhile (\<lambda>x. x \<noteq> CHR ''|'') (u @ CHR ''|'' # v) = u"
    for u v :: string
    by (induction u) auto
  have "takeWhile (\<lambda>x. x \<noteq> CHR ''|'') (a @ CHR ''|'' # b) = a"
    using assms(1) by (simp add: noBar_def t)
  moreover have "takeWhile (\<lambda>x. x \<noteq> CHR ''|'') (c @ CHR ''|'' # d) = c"
    using assms(2) by (simp add: noBar_def t)
  ultimately have "a = c" using assms(3) by simp
  with assms(3) show ?thesis by simp
qed

lemma pairKey_cases:
  "pairKey a b = a @ CHR ''|'' # b \<or> pairKey a b = b @ CHR ''|'' # a"
  by (simp add: pairKey_def)

lemma pairKey_eq:
  assumes "noBar a" "noBar b" "noBar c" "noBar d" "pairKey a b = pairKey c d"
  shows "(a = c \<and> b = d) \<or> (a = d \<and> b = c)"
  using assms pairKey_cases [of a b] pairKey_cases [of c d]
  by (metis bar_split)


text \<open>The nested loops visit every pair once and never find its key processed.\<close>

lemma nearDuplicateLoop_flat:
  "nearDuplicateLoop table st = foldl (\<lambda>st p. pairStep (fst p) st (snd p)) st (all_pairs table)"
proof (induction table arbitrary: st)
  case Nil
  then show ?case by simp
next
  case (Cons entry later)
  have "foldl (\<lambda>st p. pairStep (fst p) st (snd p)) st (map (Pair entry) later)
        = foldl (pairStep entry) st later"
    by (induction later arbitrary: st) simp_all
  with Cons show ?case by simp
qed

lemma keys_all_pairs:
  "map (\<lambda>p. (fst (fst p), fst (snd p))) (all_pairs table) = all_pairs (map fst table)"
  by (induction table) (simp_all add: comp_def)

lemma consolidation_nearDuplicateIssue:
  "consolidation (nearDuplicateIssue color1 data1 color2 data2 distance ident)
     = ontoFirst (color1, color2)"
  by (simp add: consolidation_def nearDuplicateIssue_def ontoFirst_def)

lemma severity_nearDuplicateIssue:
  "severity (nearDuplicateIssue color1 data1 color2 data2 distance ident) = medium"
  by (simp add: nearDuplicateIssue_def)

lemma pairStep_fresh:
  assumes "pairKey (fst e1) (fst e2) \<notin> set processed"
  shows "\<exists>found c'. pairStep e1 (issues, processed, c) e2
            = (issues @ found, processed @ [pairKey (fst e1) (fst e2)], c')
          \<and> map consolidation found = map ontoFirst (filter nearDuplicate [(fst e1, fst e2)])
          \<and> (\<forall>i \<in> set found. severity i = medium)"
proof (cases "nearDuplicate (fst e1, fst e2)")
  case True
  then have "pairStep e1 (issues, processed, c) e2
      = (issues @ [nearDuplicateIssue (fst e1) (snd e1) (fst e2) (snd e2)
                     (colorDistance (fst e1) (fst e2)) (fst (generateId ''CLR'' c))],
         processed @ [pairKey (fst e1) (fst e2)], snd (generateId ''CLR'' c))"
    using assms by (simp add: pairStep_def nearDuplicate_def case_prod_beta Let_def)
  with True show ?thesis
    by (simp add: consolidation_nearDuplicateIssue severity_nearDuplicateIssue)
next
  case False
  then have "pairStep e1 (issues, processed, c) e2
      = (issues, processed @ [pairKey (fst e1) (fst e2)], c)"
    using assms by (simp add: pairStep_def nearDuplicate_def case_prod_beta Let_def)
  with False show ?thesis by simp
qed

lemma foldl_pairStep_fresh:
  assumes "distinct (map (\<lambda>p. pairKey (fst (fst p)) (fst (snd p))) ps)"
    "\<forall>p \<in> set ps. pairKey (fst (fst p)) (fst (snd p)) \<notin> set processed"
  shows "\<exists>found processed' c'.
           foldl (\<lambda>st p. pairStep (fst p) st (snd p)) (issues, processed, c) ps
             = (issues @ found, processed', c')
         \<and> map consolidation found
             = map ontoFirst (filter nearDuplicate (map (\<lambda>p. (fst (fst p), fst (snd p))) ps))
         \<and> (\<forall>i \<in> set found. severity i = medium)"
  using assms
proof (induction ps arbitrary: issues processed c)
  case Nil
  then show ?case by simp
next
  case (Cons p ps)
  let ?k = "pairKey (fst (fst p)) (fst (snd p))"
  from Cons.prems(2) have "?k \<notin> set processed" by simp
  from pairStep_fresh [OF this, of issues c]
  obtain f1 c1 where 1:
    "pairStep (fst p) (issues, processed, c) (snd p) = (issues @ f1, processed @ [?k], c1)"
    "map consolidation f1 = map ontoFirst (filter nearDuplicate [(fst (fst p), fst (snd p))])"
    "\<forall>i \<in> set f1. severity i = medium"
    by auto
  have d: "distinct (map (\<lambda>p. pairKey (fst (fst p)) (fst (snd p))) ps)"
    using Cons.prems(1) by simp
  have n: "\<forall>q \<in> set ps. pairKey (fst (fst q)) (fst (snd q)) \<notin> set (processed @ [?k])"
  proof
    fix q assume q: "q \<in> set ps"
    from Cons.prems(1) have "?k \<notin> (\<lambda>p. pairKey (fst (fst p)) (fst (snd p))) ` set ps"
      by simp
    with q have "pairKey (fst (fst q)) (fst (snd q)) \<noteq> ?k"
      by (metis (no_types, lifting) image_eqI)
    with Cons.prems(2) q show "pairKey (fst (fst q)) (fst (snd q)) \<notin> set (processed @ [?k])"
      by simp
  qed
  from Cons.IH [OF d n, of "issues @ f1" c1]
  obtain f2 p2 c2 where 2:
    "foldl (\<lambda>st p. pairStep (fst p) st (snd p)) (issues @ f1, processed @ [?k], c1) ps
       = ((issues @ f1) @ f2, p2, c2)"
    "map consolidation f2
       = map ontoFirst (filter nearDuplicate (map (\<lambda>p. (fst (fst p), fst (snd p))) ps))"
    "\<forall>i \<in> set f2. severity i = medium"
    by blast
  have "foldl (\<lambda>st p. pairStep (fst p) st (snd p)) (issues, processed, c) (p # ps)
          = (issues @ (f1 @ f2), p2, c2)"
    using 1(1) 2(1) by simp
  moreover have "map consolidation (f1 @ f2)
      = map ontoFirst (filter nearDuplicate (map (\<lambda>p. (fst (fst p), fst (snd p))) (p # ps)))"
    using 1(2) 2(2) by simp
  moreover have "\<forall>i \<in> set (f1 @ f2). severity i = medium" using 1(3) 2(3) by auto
  ultimately show ?case by blast
qed

lemma all_pairs_members: "(a, b) \<in> set (all_pairs ks) \<Longrightarrow> a \<in> set ks \<and> b \<in> set ks"
  by (induction ks) auto

lemma distinct_pairKeys:
  assumes "distinct ks" "\<forall>k \<in> set ks. noBar k"
  shows "distinct (map (\<lambda>p. pairKey (fst p) (snd p)) (all_pairs ks))"
  using assms
proof (induction ks)
  case Nil
  then show ?case by simp
next
  case (Cons a later)
  have nb: "noBar a" "\<forall>k \<in> set later. noBar k" using Cons.prems(2) by simp_all
  have fresh: "a \<notin> set later" "distinct later" using Cons.prems(1) by simp_all
  have inj: "inj_on (\<lambda>x. pairKey a x) (set later)"
  proof (rule inj_onI)
    fix u v assume "u \<in> set later" "v \<in> set later" "pairKey a u = pairKey a v"
    with nb pairKey_eq [of a u a v] show "u = v" by auto
  qed
  have 1: "distinct (map (\<lambda>p. pairKey (fst p) (snd p)) (map (Pair a) later))"
    using inj fresh(2) by (simp add: distinct_map comp_def)
  have 2: "distinct (map (\<lambda>p. pairKey (fst p) (snd p)) (all_pairs later))"
    using Cons.IH fresh(2) nb(2) by simp
  have 3: "pairKey a u \<noteq> pairKey (fst q) (snd q)"
    if "u \<in> set later" "q \<in> set (all_pairs later)" for u q
  proof
    assume e: "pairKey a u = pairKey (fst q) (snd q)"
    from that(2) all_pairs_members [of "fst q" "snd q" later]
    have m: "fst q \<in> set later" "snd q \<in> set later" by simp_all
    with nb that(1) e pairKey_eq [of a u "fst q" "snd q"] have "a = fst q \<or> a = snd q" by auto
    with m fresh(1) show False by auto
  qed
  from 1 2 3 show ?case by (auto simp: comp_def)
qed

lemma paletteStep_low:
  "\<exists>found c'. paletteStep palette (issues, c) entry = (issues @ found, c')
     \<and> (\<forall>i \<in> set found. severity i = low)"
proof (cases "paletteStep palette (issues, c) entry = (issues, c)")
  case True
  then show ?thesis by simp
next
  case False
  then have "paletteStep palette (issues, c) entry
      = (issues @ [paletteIssue (fst entry) (snd entry) (findNearestColor (fst entry) palette)
                     (colorDistance (fst entry) (shown (findNearestColor (fst entry) palette)))
                     palette (fst (generateId ''CLR'' c))],
         snd (generateId ''CLR'' c))"
    by (auto simp: paletteStep_def case_prod_beta Let_def split: if_splits)
  moreover have "severity (paletteIssue a b n d palette ident) = low" for a b n d ident
    by (simp add: paletteIssue_def)
  ultimately show ?thesis by simp
qed

lemma foldl_paletteStep_low:
  "\<exists>found c'. foldl (paletteStep palette) (issues, c) table = (issues @ found, c')
     \<and> (\<forall>i \<in> set found. severity i = low)"
proof (induction table arbitrary: issues c)
  case Nil
  then show ?case by simp
next
  case (Cons entry table)
  from paletteStep_low [of palette issues c entry] obtain f1 c1 where
    1: "paletteStep palette (issues, c) entry = (issues @ f1, c1)" "\<forall>i \<in> set f1. severity i = low"
    by blast
  from Cons.IH [of "issues @ f1" c1] obtain f2 c2 where
    2: "foldl (paletteStep palette) (issues @ f1, c1) table = ((issues @ f1) @ f2, c2)"
    "\<forall>i \<in> set f2. severity i = low"
    by blast
  have "foldl (paletteStep palette) (issues, c) (entry # table) = (issues @ (f1 @ f2), c2)"
    using 1(1) 2(1) by simp
  moreover have "\<forall>i \<in> set (f1 @ f2). severity i = low" using 1(2) 2(2) by auto
  ultimately show ?case by blast
qed

lemma analyzeColors_medium:
  assumes "\<forall>k \<in> set (map fst (collectColors snapshots)). noBar k"
  shows "map consolidation (mediumIssues (fst (analyzeColors snapshots config c)))
         = map ontoFirst (filter nearDuplicate (all_pairs (map fst (collectColors snapshots))))"
proof -
  let ?table = "collectColors snapshots"
  let ?pk = "\<lambda>p. pairKey (fst (fst p)) (fst (snd p))"
  have "map ?pk (all_pairs ?table)
        = map (\<lambda>p. pairKey (fst p) (snd p)) (map (\<lambda>p. (fst (fst p), fst (snd p))) (all_pairs ?table))"
    by (simp add: comp_def)
  then have d: "distinct (map ?pk (all_pairs ?table))"
    using distinct_pairKeys [OF distinct_collectColors [of snapshots] assms]
    by (simp add: keys_all_pairs)
  from foldl_pairStep_fresh [OF d, of "[]" "[]" c]
  obtain near processed c1 where near:
    "nearDuplicateLoop ?table ([], [], c) = (near, processed, c1)"
    "map consolidation near = map ontoFirst (filter nearDuplicate (all_pairs (map fst ?table)))"
    "\<forall>i \<in> set near. severity i = medium"
    by (auto simp: nearDuplicateLoop_flat keys_all_pairs)
  from foldl_paletteStep_low [of "colorPalette config" near c1 ?table]
  obtain pal c2 where pal:
    "foldl (paletteStep (colorPalette config)) (near, c1) ?table = (near @ pal, c2)"
    "\<forall>i \<in> set pal. severity i = low"
    by blast
  have "fst (analyzeColors snapshots config c) = near @ pal"
    using near(1) pal(1) by (simp add: analyzeColors_def Let_def)
  moreover have "mediumIssues (near @ pal) = near"
    using near(3) pal(2) by (auto simp: mediumIssues_def filter_id_conv filter_empty_conv)
  ultimately show ?thesis using near(2) by simp
qed


text \<open>
  Claim C4, amended. The table of collected colors has distinct keys, and when no
  collected color contains a vertical bar the medium issues of \<open>analyzeColors\<close> are, in
  order, exactly one for each pair of collected colors (the color collected earlier
  first) whose distance is above 0 and below 15; the fix of each replaces the color
  collected later by the color collected earlier, whatever their occurrence counts.
\<close>

theorem near_duplicates_consolidate_onto_first:
  "distinct (map fst (collectColors snapshots))
   \<and> ((\<forall>k \<in> set (map fst (collectColors snapshots)). noBar k) \<longrightarrow>
        map consolidation (mediumIssues (fst (analyzeColors snapshots config c)))
        = map ontoFirst (filter nearDuplicate (all_pairs (map fst (collectColors snapshots)))))"
  using distinct_collectColors analyzeColors_medium by blast

lemma sqrt_between_0_15: "0 < sqrt v \<and> sqrt v < 15 \<longleftrightarrow> 0 < v \<and> v < 225"
proof -
  have "sqrt 225 = 15" by (rule real_sqrt_unique) simp_all
  then have "sqrt v < 15 \<longleftrightarrow> v < 225" using real_sqrt_less_iff [of v 225] by simp
  then show ?thesis by simp
qed

lemma nearDuplicate_iff:
  "nearDuplicate (a, b) \<longleftrightarrow>
     (let rgb1 = hexToRgb a; rgb2 = hexToRgb b;
          rMean = (real (rgb_r rgb1) + real (rgb_r rgb2)) / 2;
          r = real (rgb_r rgb1) - real (rgb_r rgb2);
          g = real (rgb_g rgb1) - real (rgb_g rgb2);
          b = real (rgb_b rgb1) - real (rgb_b rgb2);
          v = (2 + rMean / 256) * r * r + 4 * g * g + (2 + (255 - rMean) / 256) * b * b
      in 0 < v \<and> v < 225)"
  by (simp only: nearDuplicate_def colorDistance_def Let_def fst_conv snd_conv sqrt_between_0_15)

lemmas color_eval =
  collectColors_def collectElement_def elementColors_def colorProperties_def
  normalizeColor_def toUpperCase_def shown_def mobileSnapshot_def styled_def js_parse

lemma collectColors_paletteSample:
  "map (\<lambda>(k, u). (k, usage_count u)) (collectColors paletteSample)
     = [(''#AABBC5'', 3), (''#AABBCC'', 5)]"
  by (simp add: paletteSample_def color_eval)

lemma collectColors_paletteScenario:
  "map (\<lambda>(k, u). (k, usage_count u)) (collectColors paletteScenario)
     = [(''#AABBCC'', 5), (''#AABBC5'', 3)]"
  by (simp add: paletteScenario_def paletteSample_def color_eval)

lemma hexToRgb_C5: "hexToRgb ''#AABBC5'' = \<lparr> rgb_r = 170, rgb_g = 187, rgb_b = 197 \<rparr>"
  by (simp add: hexToRgb_def match_hex_def js_parse)

lemma hexToRgb_CC: "hexToRgb ''#AABBCC'' = \<lparr> rgb_r = 170, rgb_g = 187, rgb_b = 204 \<rparr>"
  by (simp add: hexToRgb_def match_hex_def js_parse)

lemma near_C5_CC: "nearDuplicate (''#AABBC5'', ''#AABBCC'')"
  by (simp add: nearDuplicate_iff hexToRgb_C5 hexToRgb_CC)

lemma near_CC_C5: "nearDuplicate (''#AABBCC'', ''#AABBC5'')"
  by (simp add: nearDuplicate_iff hexToRgb_C5 hexToRgb_CC)

text \<open>
  Claim C4, as stated, has the fix consolidate onto the color with the higher occurrence
  count. In \<open>paletteSample\<close> the color \<open>#AABBC5\<close> is collected first and used 3 times,
  \<open>#AABBCC\<close> is used 5 times, and the two are near duplicates. The one medium issue
  replaces \<open>#AABBCC\<close> by \<open>#AABBC5\<close>, the color with the lower count.
\<close>

theorem near_duplicate_keeps_rarer_color:
  "map (\<lambda>(k, u). (k, usage_count u)) (collectColors paletteSample)
     = [(''#AABBC5'', 3), (''#AABBCC'', 5)]
   \<and> nearDuplicate (''#AABBC5'', ''#AABBCC'')
   \<and> map consolidation (mediumIssues (fst (analyzeColors paletteSample defaultConfig 0)))
     = [(Some (JStr ''#AABBC5''), Some (JStr ''#AABBCC''),
         [Lit ''color: '', Lit ''#AABBC5'', Lit '';''],
         [Lit ''color: '', Lit ''#AABBCC'', Lit '';''])]"
proof -
  have k: "map fst (collectColors paletteSample) = [''#AABBC5'', ''#AABBCC'']"
    using arg_cong [OF collectColors_paletteSample, of "map fst"] by (simp add: comp_def case_prod_beta)
  have "\<forall>k \<in> set (map fst (collectColors paletteSample)). noBar k"
    unfolding k by (simp add: noBar_def)
  from analyzeColors_medium [OF this, of defaultConfig 0] show ?thesis
    by (simp add: k collectColors_paletteSample near_C5_CC ontoFirst_def)
qed

theorem near_duplicates_consolidate_onto_first_witness:
  "distinct (map fst (collectColors paletteScenario))
   \<and> list_all noBar (map fst (collectColors paletteScenario))
   \<and> map consolidation (mediumIssues (fst (analyzeColors paletteScenario defaultConfig 0)))
     = [(Some (JStr ''#AABBCC''), Some (JStr ''#AABBC5''),
         [Lit ''color: '', Lit ''#AABBCC'', Lit '';''],
         [Lit ''color: '', Lit ''#AABBC5'', Lit '';''])]"
proof -
  have k: "map fst (collectColors paletteScenario) = [''#AABBCC'', ''#AABBC5'']"
    using arg_cong [OF collectColors_paletteScenario, of "map fst"] by (simp add: comp_def case_prod_beta)
  have n: "\<forall>k \<in> set (map fst (collectColors paletteScenario)). noBar k"
    unfolding k by (simp add: noBar_def)
  with near_duplicates_consolidate_onto_first [of paletteScenario defaultConfig 0] show ?thesis
    by (simp add: k near_CC_C5 ontoFirst_def list_all_iff)
qed

subsection \<open>Determinism of a run up to messages\<close>

lemma alike_refl: "alike s s"
  by (simp add: alike_def)

lemma counter_pick_message: "counter (snd (pick_message msgs w)) = counter w"
  by (simp add: pick_message_def Math_random_def Let_def)

lemma for_each_alike:
  "\<forall>a \<in> set as. \<forall>s t. alike s t \<longrightarrow> rel_sum (=) alike (body a s) (body a t) \<Longrightarrow>
   alike s t \<Longrightarrow> rel_sum (=) alike (for_each body as s) (for_each body as t)"
proof (induction as arbitrary: s t)
  case Nil
  then show ?case by simp
next
  case (Cons a as)
  have step: "rel_sum (=) alike (body a s) (body a t)"
    using Cons.prems by (meson list.set_intros(1))
  have rest: "\<forall>b \<in> set as. \<forall>s t. alike s t \<longrightarrow> rel_sum (=) alike (body b s) (body b t)"
    using Cons.prems(1) by (meson list.set_intros(2))
  show ?case
  proof (cases "body a s")
    case (Inl e)
    with step show ?thesis by (cases "body a t") simp_all
  next
    case (Inr s1)
    with step obtain t1 where t1: "body a t = Inr t1" "alike s1 t1"
      by (cases "body a t") simp_all
    from Cons.IH [OF rest t1(2)] Inr t1(1) show ?thesis by simp
  qed
qed

lemma foldl_alike:
  "\<forall>a \<in> set as. \<forall>s t. alike s t \<longrightarrow> alike (f s a) (f t a) \<Longrightarrow>
   alike s t \<Longrightarrow> alike (foldl f s as) (foldl f t as)"
proof (induction as arbitrary: s t)
  case Nil
  then show ?case by simp
next
  case (Cons a as)
  have "alike (f s a) (f t a)" using Cons.prems by (meson list.set_intros(1))
  moreover have "\<forall>b \<in> set as. \<forall>s t. alike s t \<longrightarrow> alike (f s b) (f t b)"
    using Cons.prems(1) by (meson list.set_intros(2))
  ultimately show ?case using Cons.IH by simp
qed

text \<open>Each analyzer that draws random numbers keeps two alike states alike.\<close>

lemma spacingValueStep_eq:
  "spacingValueStep snapshot el scale (ty, v) (issues, w) =
     (if \<not> isOnScale v scale \<and> v > 0 then
        (case findNearest v scale of
           Inl e \<Rightarrow> Inl e
         | Inr nearest \<Rightarrow>
             Inr (issues @ [spacingIssue snapshot el scale ty v nearest
                              (fst (generateId ''SPC'' (counter w)))
                              (fst (pick_message (spacingRoasts snapshot ty v nearest)
                                     (w\<lparr>counter := snd (generateId ''SPC'' (counter w))\<rparr>)))],
                  snd (pick_message (spacingRoasts snapshot ty v nearest)
                         (w\<lparr>counter := snd (generateId ''SPC'' (counter w))\<rparr>))))
      else Inr (issues, w))"
  by (simp add: spacingValueStep_def Let_def case_prod_beta split: sum.splits)

lemma without_message_spacingIssue:
  "without_message (spacingIssue snapshot el scale ty v nearest ident msg)
   = without_message (spacingIssue snapshot el scale ty v nearest ident msg')"
  by (simp add: without_message_def spacingIssue_def)

lemma spacingValueStep_alike:
  assumes "alike s t"
  shows "rel_sum (=) alike (spacingValueStep snapshot el scale tv s)
           (spacingValueStep snapshot el scale tv t)"
proof -
  obtain ty v where tv: "tv = (ty, v)" by (cases tv)
  obtain is1 w1 where s: "s = (is1, w1)" by (cases s)
  obtain is2 w2 where t: "t = (is2, w2)" by (cases t)
  from assms have a: "map without_message is1 = map without_message is2" "counter w1 = counter w2"
    by (simp_all add: alike_def s t)
  show ?thesis
    unfolding tv s t spacingValueStep_eq
    using a without_message_spacingIssue
    by (cases "findNearest v scale") (auto simp: alike_def counter_pick_message)
qed

lemma analyzeSpacing_alike:
  assumes "counter w1 = counter w2"
  shows "rel_sum (=) alike (analyzeSpacing snapshots config w1) (analyzeSpacing snapshots config w2)"
proof -
  have e: "rel_sum (=) alike (spacingElementStep snapshot scale el s)
             (spacingElementStep snapshot scale el t)" if "alike s t" for snapshot scale el s t
    unfolding spacingElementStep_def using that
    by (intro for_each_alike) (simp_all add: spacingValueStep_alike)
  have sn: "rel_sum (=) alike (spacingSnapshotStep scale snapshot s)
             (spacingSnapshotStep scale snapshot t)" if "alike s t" for snapshot scale s t
    unfolding spacingSnapshotStep_def using that
    by (intro for_each_alike) (simp_all add: e)
  have start: "alike ([], w1) ([], w2)" using assms by (simp add: alike_def)
  show ?thesis
    unfolding analyzeSpacing_def
    by (rule for_each_alike [OF _ start]) (simp add: sn)
qed


lemma typescaleElementStep_eq:
  "typescaleElementStep snapshot config el (issues, w) =
     (case parseFloat (or_else (computedStyle el ''fontSize'') ''16px'') of
        None \<Rightarrow> Inr (issues, w)
      | Some fontSize \<Rightarrow>
          if fontSize \<notin> set (sizes (typescale_cfg config)) \<and> fontSize > 0 then
            (case findNearest fontSize (sizes (typescale_cfg config)) of
               Inl e \<Rightarrow> Inl e
             | Inr nearest \<Rightarrow>
                 Inr (issues @ [typescaleIssue snapshot config el fontSize nearest
                                  (fst (generateId ''TYP'' (counter w)))
                                  (fst (pick_message (typescaleRoasts snapshot fontSize nearest)
                                         (w\<lparr>counter := snd (generateId ''TYP'' (counter w))\<rparr>)))],
                      snd (pick_message (typescaleRoasts snapshot fontSize nearest)
                             (w\<lparr>counter := snd (generateId ''TYP'' (counter w))\<rparr>))))
          else Inr (issues, w))"
  by (simp add: typescaleElementStep_def Let_def case_prod_beta split: sum.splits option.splits)

lemma without_message_typescaleIssue:
  "without_message (typescaleIssue snapshot config el fontSize nearest ident msg)
   = without_message (typescaleIssue snapshot config el fontSize nearest ident msg')"
  by (simp add: without_message_def typescaleIssue_def)

lemma typescaleElementStep_alike:
  assumes "alike s t"
  shows "rel_sum (=) alike (typescaleElementStep snapshot config el s)
           (typescaleElementStep snapshot config el t)"
proof -
  obtain is1 w1 where s: "s = (is1, w1)" by (cases s)
  obtain is2 w2 where t: "t = (is2, w2)" by (cases t)
  from assms have a: "map without_message is1 = map without_message is2" "counter w1 = counter w2"
    by (simp_all add: alike_def s t)
  show ?thesis
  proof (cases "parseFloat (or_else (computedStyle el ''fontSize'') ''16px'')")
    case None
    with assms show ?thesis unfolding s t typescaleElementStep_eq by simp
  next
    case (Some fontSize)
    show ?thesis
      unfolding s t typescaleElementStep_eq Some
      using a without_message_typescaleIssue
      by (cases "findNearest fontSize (sizes (typescale_cfg config))")
         (auto simp: alike_def counter_pick_message)
  qed
qed

lemma enforceTypescale_alike:
  assumes "counter w1 = counter w2"
  shows "rel_sum (=) alike (enforceTypescale snapshots config w1)
           (enforceTypescale snapshots config w2)"
proof -
  have sn: "rel_sum (=) alike (typescaleSnapshotStep config snapshot s)
             (typescaleSnapshotStep config snapshot t)" if "alike s t" for snapshot s t
    unfolding typescaleSnapshotStep_def using that
    by (intro for_each_alike) (simp_all add: typescaleElementStep_alike)
  have start: "alike ([], w1) ([], w2)" using assms by (simp add: alike_def)
  show ?thesis
    unfolding enforceTypescale_def
    by (rule for_each_alike [OF _ start]) (simp add: sn)
qed

lemma overflowElementStep_eq:
  "overflowElementStep snapshot (issues, w) el =
     (if or_else (computedStyle el ''overflowX'') (or_else (computedStyle el ''overflow'') ''visible'')
           = ''visible''
         \<and> overflowingElements (metrics snapshot) > 0 \<and> rect_width (rect el) > 0
      then (issues @ [overflowIssue snapshot el
                        (or_else (computedStyle el ''overflowX'')
                           (or_else (computedStyle el ''overflow'') ''visible''))
                        (fst (generateId ''OVF'' (counter w)))
                        (fst (pick_message (overflowRoasts snapshot el)
                               (w\<lparr>counter := snd (generateId ''OVF'' (counter w))\<rparr>)))],
            snd (pick_message (overflowRoasts snapshot el)
                   (w\<lparr>counter := snd (generateId ''OVF'' (counter w))\<rparr>)))
      else (issues, w))"
  by (simp add: overflowElementStep_def Let_def case_prod_beta)

lemma without_message_overflowIssue:
  "without_message (overflowIssue snapshot el ox ident msg)
   = without_message (overflowIssue snapshot el ox ident msg')"
  by (simp add: without_message_def overflowIssue_def)

lemma overflowElementStep_alike:
  assumes "alike s t"
  shows "alike (overflowElementStep snapshot s el) (overflowElementStep snapshot t el)"
proof -
  obtain is1 w1 where s: "s = (is1, w1)" by (cases s)
  obtain is2 w2 where t: "t = (is2, w2)" by (cases t)
  from assms have a: "map without_message is1 = map without_message is2" "counter w1 = counter w2"
    by (simp_all add: alike_def s t)
  show ?thesis
    unfolding s t overflowElementStep_eq
    using a without_message_overflowIssue
    by (auto simp: alike_def counter_pick_message)
qed

lemma detectOverflow_alike:
  assumes "counter w1 = counter w2"
  shows "alike (detectOverflow snapshots config w1) (detectOverflow snapshots config w2)"
proof -
  have sn: "alike (foldl (overflowElementStep snapshot) s els)
              (foldl (overflowElementStep snapshot) t els)" if "alike s t" for snapshot s t els
    using that by (intro foldl_alike) (simp_all add: overflowElementStep_alike)
  have start: "alike ([], w1) ([], w2)" using assms by (simp add: alike_def)
  show ?thesis
    unfolding detectOverflow_def
    by (rule foldl_alike [OF _ start]) (simp add: sn)
qed

lemma contrastCheck_eq:
  "contrastCheck snapshot config el fg bg (issues, w) =
     (if calculateContrast fg bg < requiredRatioFor config el then
        (issues @ [contrastIssue snapshot el bg (calculateContrast fg bg)
                     (requiredRatioFor config el) (fst (generateId ''A11Y'' (counter w)))
                     (fst (pick_message
                            (contrastRoasts snapshot (calculateContrast fg bg)
                               (requiredRatioFor config el))
                            (w\<lparr>counter := snd (generateId ''A11Y'' (counter w))\<rparr>)))],
         snd (pick_message
                (contrastRoasts snapshot (calculateContrast fg bg) (requiredRatioFor config el))
                (w\<lparr>counter := snd (generateId ''A11Y'' (counter w))\<rparr>)))
      else (issues, w))"
  by (simp add: contrastCheck_def Let_def case_prod_beta)

lemma without_message_contrastIssue:
  "without_message (contrastIssue snapshot el bg cr rr ident msg)
   = without_message (contrastIssue snapshot el bg cr rr ident msg')"
  by (simp add: without_message_def contrastIssue_def)

lemma contrastCheck_alike:
  assumes "alike s t"
  shows "alike (contrastCheck snapshot config el fg bg s) (contrastCheck snapshot config el fg bg t)"
proof -
  obtain is1 w1 where s: "s = (is1, w1)" by (cases s)
  obtain is2 w2 where t: "t = (is2, w2)" by (cases t)
  from assms have a: "map without_message is1 = map without_message is2" "counter w1 = counter w2"
    by (simp_all add: alike_def s t)
  show ?thesis
    unfolding s t contrastCheck_eq
    using a without_message_contrastIssue
    by (auto simp: alike_def counter_pick_message)
qed

lemma accessibilityElementStep_alike:
  "alike s t \<Longrightarrow>
   alike (accessibilityElementStep snapshot config el s) (accessibilityElementStep snapshot config el t)"
  by (simp add: accessibilityElementStep_def contrastCheck_alike split: option.splits)

lemma checkAccessibility_alike:
  assumes "counter w1 = counter w2"
  shows "alike (checkAccessibility snapshots config w1) (checkAccessibility snapshots config w2)"
proof -
  have sn: "alike (accessibilitySnapshotStep config snapshot s)
              (accessibilitySnapshotStep config snapshot t)" if "alike s t" for snapshot s t
    unfolding accessibilitySnapshotStep_def Let_def using that
    by (intro foldl_alike) (simp_all add: accessibilityElementStep_alike)
  have start: "alike ([], w1) ([], w2)" using assms by (simp add: alike_def)
  show ?thesis
    unfolding checkAccessibility_def
    by (rule foldl_alike [OF _ start]) (simp add: sn)
qed

text \<open>The steps of a run keep two alike states alike.\<close>

lemma push_random_alike:
  assumes "\<And>w1 w2. counter w1 = counter w2 \<Longrightarrow> rel_sum (=) alike (f w1) (f w2)" "alike s t"
  shows "rel_sum (=) alike (push_random f s) (push_random f t)"
proof -
  from assms(2) have c: "counter (snd s) = counter (snd t)" by (simp add: alike_def)
  from assms(1) [OF c] have r: "rel_sum (=) alike (f (snd s)) (f (snd t))" .
  show ?thesis
  proof (cases "f (snd s)")
    case (Inl e)
    with r show ?thesis by (cases "f (snd t)") (simp_all add: push_random_def)
  next
    case (Inr a)
    with r obtain b where b: "f (snd t) = Inr b" "alike a b" by (cases "f (snd t)") simp_all
    with Inr assms(2) show ?thesis
      by (simp add: push_random_def alike_def case_prod_beta)
  qed
qed

lemma push_counted_alike:
  assumes "alike s t"
  shows "rel_sum (=) alike (push_counted f s) (push_counted f t)"
proof -
  from assms have c: "counter (snd s) = counter (snd t)" by (simp add: alike_def)
  show ?thesis
    using assms
    by (cases "f (counter (snd t))") (auto simp: push_counted_def alike_def c)
qed

lemma when_enabled_alike:
  assumes "\<forall>step \<in> set steps. \<forall>s t. alike s t \<longrightarrow> rel_sum (=) alike (step s) (step t)" "alike s t"
  shows "rel_sum (=) alike (when_enabled config feature steps s) (when_enabled config feature steps t)"
  using assms by (simp add: when_enabled_def for_each_alike)

lemma alike_observed: "rel_sum (=) alike r1 r2 \<Longrightarrow> observed r1 = observed r2"
  by (cases r1; cases r2) (simp_all add: observed_def alike_def)

lemma runDetectors_alike:
  "rel_sum (=) alike (runDetectors D snapshots config w1) (runDetectors D snapshots config w2)"
proof -
  have ov: "rel_sum (=) alike (Inr (detectOverflow snapshots config u)) (Inr (detectOverflow snapshots config v))"
    if "counter u = counter v" for u v
    using detectOverflow_alike [OF that] by simp
  have ac: "rel_sum (=) alike (Inr (checkAccessibility snapshots config u))
              (Inr (checkAccessibility snapshots config v))"
    if "counter u = counter v" for u v
    using checkAccessibility_alike [OF that] by simp
  have start: "alike ([], resetCounter w1) ([], resetCounter w2)"
    by (simp add: alike_def resetCounter_def)
  show ?thesis
    unfolding runDetectors_def
    by (rule for_each_alike [OF _ start])
       (auto intro!: when_enabled_alike push_random_alike push_counted_alike
          analyzeSpacing_alike enforceTypescale_alike ov ac)
qed

text \<open>
  Claim C5. Two runs of the analysis on the same snapshots and configuration, from any
  two states of the counter and of the random source, end alike: both throw, or both
  return issue lists of the same length whose issues agree in every field but the
  message (identifier, type, severity, viewport, element, details, screenshot and fix).
\<close>

theorem audit_deterministic_up_to_messages:
  "observed (runDetectors D snapshots config w1) = observed (runDetectors D snapshots config w2)"
  by (rule alike_observed) (rule runDetectors_alike)


lemmas spacing_eval =
  analyzeSpacing_def spacingSnapshotStep_def spacingElementStep_def
  spacingValueStep_def spacingSample_def mobileSnapshot_def styled_def defaultConfig_def
  allSpacingValues_def parseSpacing_def isOnScale_def
  findNearest_def reduce_def generateId_def pick_message_def Math_random_def
  show_nat_def padStart4_def spacingRoasts_def spacingIssue_def Let_def eval_nat_numeral js_parse
  double_sub_int

text \<open>
  The messages themselves can differ: on \<open>spacingSample\<close> with only the spacing analyzer
  enabled, the runs from \<open>startWorld\<close> and from \<open>laterWorld\<close> choose different phrasings.
\<close>

lemma run_messages_differ:
  "map_sum id (map message \<circ> fst)
     (runDetectors silentDetectors spacingSample (defaultConfig\<lparr>features := [spacing]\<rparr>) startWorld)
   \<noteq> map_sum id (map message \<circ> fst)
     (runDetectors silentDetectors spacingSample (defaultConfig\<lparr>features := [spacing]\<rparr>) laterWorld)"
  by (simp add: runDetectors_def when_enabled_def push_random_def resetCounter_def startWorld_def
      laterWorld_def spacing_eval)



end
